theory Spec2Isabelle
  imports Complex_Main "HOL-Library.Sublist" "HOL-Library.AList"
begin

section \<open>Strings\<close>

text \<open>
  A JavaScript string is a sequence of 16-bit code units. The model covers the strings whose
  code units are below 256, one \<^typ>\<open>char\<close> per code unit (the Latin-1 range). The string
  operations of the source that the import and the classifier use are written out for that
  range: \<^verbatim>\<open>toLowerCase\<close>, \<^verbatim>\<open>trim\<close>, \<^verbatim>\<open>includes\<close>, \<^verbatim>\<open>split('\n')\<close> and the character
  classes \<^verbatim>\<open>\d\<close>, \<^verbatim>\<open>\s\<close> and \<^verbatim>\<open>.\<close> of the regular expressions.
\<close>

definition is_digit :: "char \<Rightarrow> bool" where
  "is_digit c = (c \<in> set ''0123456789'')"

text \<open>White space and line terminators below 256: TAB, LF, VT, FF, CR, SP and NBSP.
  This is what \<^verbatim>\<open>\s\<close> matches and what \<^verbatim>\<open>trim\<close> and \<^verbatim>\<open>parseFloat\<close> strip.\<close>

definition is_space :: "char \<Rightarrow> bool" where
  "is_space c = (c \<in> set [CHR 0x09, CHR 0x0A, CHR 0x0B, CHR 0x0C, CHR 0x0D, CHR 0x20, CHR 0xA0])"

text \<open>The line terminators below 256; the regular expression \<^verbatim>\<open>.\<close> matches none of them.\<close>

definition is_line_terminator :: "char \<Rightarrow> bool" where
  "is_line_terminator c = (c \<in> set [CHR 0x0A, CHR 0x0D])"

definition upper_chars :: "char list" where
  "upper_chars = ''ABCDEFGHIJKLMNOPQRSTUVWXYZ'' @
     [CHR 0xC0, CHR 0xC1, CHR 0xC2, CHR 0xC3, CHR 0xC4, CHR 0xC5, CHR 0xC6, CHR 0xC7,
      CHR 0xC8, CHR 0xC9, CHR 0xCA, CHR 0xCB, CHR 0xCC, CHR 0xCD, CHR 0xCE, CHR 0xCF,
      CHR 0xD0, CHR 0xD1, CHR 0xD2, CHR 0xD3, CHR 0xD4, CHR 0xD5, CHR 0xD6,
      CHR 0xD8, CHR 0xD9, CHR 0xDA, CHR 0xDB, CHR 0xDC, CHR 0xDD, CHR 0xDE]"

definition lower_chars :: "char list" where
  "lower_chars = ''abcdefghijklmnopqrstuvwxyz'' @
     [CHR 0xE0, CHR 0xE1, CHR 0xE2, CHR 0xE3, CHR 0xE4, CHR 0xE5, CHR 0xE6, CHR 0xE7,
      CHR 0xE8, CHR 0xE9, CHR 0xEA, CHR 0xEB, CHR 0xEC, CHR 0xED, CHR 0xEE, CHR 0xEF,
      CHR 0xF0, CHR 0xF1, CHR 0xF2, CHR 0xF3, CHR 0xF4, CHR 0xF5, CHR 0xF6,
      CHR 0xF8, CHR 0xF9, CHR 0xFA, CHR 0xFB, CHR 0xFC, CHR 0xFD, CHR 0xFE]"

definition lower_char :: "char \<Rightarrow> char" where
  "lower_char c = (case map_of (zip upper_chars lower_chars) c of Some l \<Rightarrow> l | None \<Rightarrow> c)"

definition toLowerCase :: "string \<Rightarrow> string" where
  "toLowerCase s = map lower_char s"

definition trim :: "string \<Rightarrow> string" where
  "trim s = rev (dropWhile is_space (rev (dropWhile is_space s)))"

text \<open>\<^verbatim>\<open>s.includes(pat)\<close>: \<^verbatim>\<open>pat\<close> occurs in \<^verbatim>\<open>s\<close> as a contiguous substring; the empty
  pattern occurs in every string.\<close>

primrec includes_str :: "string \<Rightarrow> string \<Rightarrow> bool" where
  "includes_str [] pat = (pat = [])"
| "includes_str (c # cs) pat = (prefix pat (c # cs) \<or> includes_str cs pat)"

text \<open>\<^verbatim>\<open>s.split('\n')\<close>: the pieces between line feeds; the empty string gives one empty piece.\<close>

primrec split_lines :: "string \<Rightarrow> string list" where
  "split_lines [] = [[]]"
| "split_lines (c # cs) =
     (if c = CHR 0x0A then [] # split_lines cs
      else (case split_lines cs of l # ls \<Rightarrow> (c # l) # ls | [] \<Rightarrow> [[c]]))"

text \<open>A case-insensitive literal of a regular expression with the \<^verbatim>\<open>i\<close> flag, for a
  lower-case ASCII literal \<^verbatim>\<open>lit\<close>, at the start of \<^verbatim>\<open>s\<close>: an ASCII letter of the literal
  matches its two cases only.\<close>

definition ci_prefix :: "string \<Rightarrow> string \<Rightarrow> bool" where
  "ci_prefix lit s = prefix lit (toLowerCase s)"

definition digit_val :: "char \<Rightarrow> nat" where
  "digit_val c =
     (case map_of (zip ''0123456789'' [0, 1, 2, 3, 4, 5, 6, 7, 8, 9]) c of
        Some d \<Rightarrow> d | None \<Rightarrow> 0)"

definition digits_value :: "string \<Rightarrow> nat" where
  "digits_value ds = foldl (\<lambda>v c. 10 * v + digit_val c) 0 ds"

definition digit_char :: "nat \<Rightarrow> char" where
  "digit_char d = ''0123456789'' ! (d mod 10)"

text \<open>The decimal digits of a natural number, as a template literal or \<^verbatim>\<open>toFixed\<close> prints an
  integer below \<open>10\<^sup>2\<^sup>1\<close>.\<close>

fun show_nat :: "nat \<Rightarrow> string" where
  "show_nat n =
     (if n < 10 then [digit_char n] else show_nat (n div 10) @ [digit_char (n mod 10)])"

declare show_nat.simps [simp del]

text \<open>Truthiness of an optional string: \<^verbatim>\<open>undefined\<close>, \<^verbatim>\<open>null\<close> and \<^verbatim>\<open>''\<close> are falsy.\<close>

definition truthy :: "string option \<Rightarrow> bool" where
  "truthy s = (case s of None \<Rightarrow> False | Some t \<Rightarrow> t \<noteq> [])"

text \<open>\<^verbatim>\<open>a || b\<close> for an optional string \<^verbatim>\<open>a\<close> and a string \<^verbatim>\<open>b\<close>.\<close>

definition or_else :: "string option \<Rightarrow> string \<Rightarrow> string" where
  "or_else a b = (case a of None \<Rightarrow> b | Some t \<Rightarrow> if t = [] then b else t)"

text \<open>Truthiness of an optional count: \<^verbatim>\<open>undefined\<close> and \<open>0\<close> are falsy.\<close>

definition truthy_count :: "nat option \<Rightarrow> bool" where
  "truthy_count n = (case n of None \<Rightarrow> False | Some k \<Rightarrow> k \<noteq> 0)"

section \<open>Numbers\<close>

text \<open>
  A JavaScript number is an IEEE 754 binary64 value. A finite one is modelled by the rational
  it denotes; the two zeros are one value, which no operation used here tells apart
  (\<^verbatim>\<open>toFixed\<close> prints both as \<^verbatim>\<open>0.00\<close>). Every arithmetic result is rounded to the nearest
  binary64 value, ties to even, by \<open>round_double\<close>.
\<close>

datatype number = NaN | PosInf | NegInf | Finite rat

definition pow_int :: "rat \<Rightarrow> int \<Rightarrow> rat" where
  "pow_int b e = (if 0 \<le> e then b ^ nat e else 1 / b ^ nat (- e))"

text \<open>The position of the leading bit of a positive number, by recursion on its binary
  digits.\<close>

primrec log2_num :: "num \<Rightarrow> nat" where
  "log2_num num.One = 0"
| "log2_num (num.Bit0 n) = Suc (log2_num n)"
| "log2_num (num.Bit1 n) = Suc (log2_num n)"

definition log2_nat :: "nat \<Rightarrow> nat" where
  "log2_nat n = (if n < 2 then 0 else log2_num (num_of_nat n))"

text \<open>For \<open>0 < a\<close>, the integer \<open>e\<close> with \<open>2\<^sup>e \<le> a < 2\<^sup>e\<^sup>+\<^sup>1\<close>. Below \<open>1\<close> it is found from
  the leading bit \<open>k\<close> of \<open>\<lfloor>1 / a\<rfloor>\<close>.\<close>

definition low_log2 :: "rat \<Rightarrow> int \<Rightarrow> int" where
  "low_log2 a k = (if a = pow_int 2 (- k) then - k else - (k + 1))"

definition floor_log2 :: "rat \<Rightarrow> int" where
  "floor_log2 a =
     (if 1 \<le> a then int (log2_nat (nat \<lfloor>a\<rfloor>))
      else low_log2 a (int (log2_nat (nat \<lfloor>1 / a\<rfloor>))))"

text \<open>The integer nearest to \<open>q\<close>, the even one at a tie; \<open>f\<close> is \<open>\<lfloor>q\<rfloor>\<close>.\<close>

definition nearest_even :: "rat \<Rightarrow> int \<Rightarrow> int" where
  "nearest_even q f =
     (if q - of_int f < 1 / 2 then f
      else if 1 / 2 < q - of_int f then f + 1
      else if even f then f else f + 1)"

definition round_half_even :: "rat \<Rightarrow> int" where
  "round_half_even q = nearest_even q \<lfloor>q\<rfloor>"

text \<open>Rounding a rational to binary64: 53 significant bits, the smallest exponent \<open>-1022\<close>
  (below it the subnormal spacing \<open>2\<^sup>-\<^sup>1\<^sup>0\<^sup>7\<^sup>4\<close>), and overflow to an infinity from \<open>2\<^sup>1\<^sup>0\<^sup>2\<^sup>4\<close> on.
  \<open>round_at q e\<close> rounds \<open>q\<close> to a multiple of \<open>2\<^sup>e\<^sup>-\<^sup>5\<^sup>2\<close>, and \<open>pack_double q r\<close> attaches the sign
  of \<open>q\<close> to the rounded magnitude \<open>r\<close>.\<close>

definition pack_double :: "rat \<Rightarrow> rat \<Rightarrow> number" where
  "pack_double q r =
     (if pow_int 2 1024 \<le> r then (if 0 < q then PosInf else NegInf)
      else Finite (if 0 < q then r else - r))"

definition round_at :: "rat \<Rightarrow> int \<Rightarrow> number" where
  "round_at q e =
     pack_double q
       (of_int (round_half_even (\<bar>q\<bar> / pow_int 2 (e - 52))) * pow_int 2 (e - 52))"

definition round_double :: "rat \<Rightarrow> number" where
  "round_double q =
     (if q = 0 then Finite 0 else round_at q (max (floor_log2 \<bar>q\<bar>) (- 1022)))"

text \<open>\<^verbatim>\<open>x * c\<close> and \<^verbatim>\<open>x / c\<close> for a positive finite constant \<open>c\<close> (the source uses \<open>c = 100\<close>).\<close>

definition js_times :: "number \<Rightarrow> rat \<Rightarrow> number" where
  "js_times x c = (case x of Finite a \<Rightarrow> round_double (a * c) | _ \<Rightarrow> x)"

definition js_over :: "number \<Rightarrow> rat \<Rightarrow> number" where
  "js_over x c = (case x of Finite a \<Rightarrow> round_double (a / c) | _ \<Rightarrow> x)"

text \<open>\<^verbatim>\<open>Math.round\<close>: the nearest integer, a tie towards \<open>+\<infinity>\<close>.\<close>

definition math_round :: "number \<Rightarrow> number" where
  "math_round x = (case x of Finite a \<Rightarrow> Finite (of_int \<lfloor>a + 1 / 2\<rfloor>) | _ \<Rightarrow> x)"

definition isNaN :: "number \<Rightarrow> bool" where
  "isNaN x = (x = NaN)"

text \<open>
  \<^verbatim>\<open>parseFloat\<close>: leading white space is skipped, the longest prefix that is a decimal
  literal (a sign, then \<^verbatim>\<open>Infinity\<close> or digits with an optional fraction and exponent) is
  read and rounded to binary64, and a string with no such prefix gives \<^verbatim>\<open>NaN\<close>.

  The exponent part is \<^verbatim>\<open>e\<close> or \<^verbatim>\<open>E\<close>, an optional sign and at least one digit; anything
  else after the mantissa is not part of the number.
\<close>

definition exponent_part :: "string \<Rightarrow> int" where
  "exponent_part r =
     (case r of
        [] \<Rightarrow> 0
      | c # r1 \<Rightarrow>
          if c = CHR ''e'' \<or> c = CHR ''E'' then
            (case r1 of
               [] \<Rightarrow> 0
             | s # r2 \<Rightarrow>
                 if s = CHR ''-'' then - int (digits_value (takeWhile is_digit r2))
                 else if s = CHR ''+'' then int (digits_value (takeWhile is_digit r2))
                 else int (digits_value (takeWhile is_digit r1)))
          else 0)"

text \<open>The digits of the fraction, and what follows the fraction, in the text \<open>r\<close> that
  follows the integer digits.\<close>

definition fraction_digits :: "string \<Rightarrow> string" where
  "fraction_digits r =
     (case r of [] \<Rightarrow> [] | c # r1 \<Rightarrow> if c = CHR ''.'' then takeWhile is_digit r1 else [])"

definition after_fraction :: "string \<Rightarrow> string" where
  "after_fraction r =
     (case r of [] \<Rightarrow> [] | c # r1 \<Rightarrow> if c = CHR ''.'' then dropWhile is_digit r1 else r)"

definition unsigned_literal :: "string \<Rightarrow> rat option" where
  "unsigned_literal u =
     (if takeWhile is_digit u = [] \<and> fraction_digits (dropWhile is_digit u) = [] then None
      else Some (of_nat (digits_value (takeWhile is_digit u @ fraction_digits (dropWhile is_digit u)))
                 * pow_int 10 (exponent_part (after_fraction (dropWhile is_digit u))
                               - int (length (fraction_digits (dropWhile is_digit u))))))"

definition is_negative :: "string \<Rightarrow> bool" where
  "is_negative t = (case t of [] \<Rightarrow> False | c # r \<Rightarrow> c = CHR ''-'')"

definition strip_sign :: "string \<Rightarrow> string" where
  "strip_sign t =
     (case t of [] \<Rightarrow> [] | c # r \<Rightarrow> if c = CHR ''-'' \<or> c = CHR ''+'' then r else t)"

definition parse_signed :: "string \<Rightarrow> number" where
  "parse_signed t =
     (if prefix ''Infinity'' (strip_sign t) then (if is_negative t then NegInf else PosInf)
      else (case unsigned_literal (strip_sign t) of
              None \<Rightarrow> NaN
            | Some v \<Rightarrow> round_double (if is_negative t then - v else v)))"

definition parseFloat :: "string \<Rightarrow> number" where
  "parseFloat s = parse_signed (dropWhile is_space s)"

text \<open>\<^verbatim>\<open>x.toFixed(2)\<close>. For a finite \<open>x\<close> below \<open>10\<^sup>2\<^sup>1\<close> in magnitude the digits are those of
  the integer \<open>n\<close> with \<open>n / 100\<close> nearest to \<open>\<bar>x\<bar>\<close> (the larger one at a tie), padded to three
  digits, with the point before the last two and a minus sign for a negative \<open>x\<close>; from
  \<open>10\<^sup>2\<^sup>1\<close> on the result is the exponent notation of \<^verbatim>\<open>Number.prototype.toString\<close>, which is
  taken as the parameter \<open>number_toString\<close>.\<close>

definition pad3 :: "string \<Rightarrow> string" where
  "pad3 m = replicate (3 - length m) (CHR ''0'') @ m"

definition insert_point :: "string \<Rightarrow> string" where
  "insert_point m = take (length m - 2) m @ ''.'' @ drop (length m - 2) m"

definition fixed_digits :: "rat \<Rightarrow> string" where
  "fixed_digits q = pad3 (show_nat (nat \<lfloor>\<bar>q\<bar> * 100 + 1 / 2\<rfloor>))"

definition toFixed2 :: "(rat \<Rightarrow> string) \<Rightarrow> number \<Rightarrow> string" where
  "toFixed2 number_toString x =
     (case x of
        NaN \<Rightarrow> ''NaN''
      | PosInf \<Rightarrow> ''Infinity''
      | NegInf \<Rightarrow> ''-Infinity''
      | Finite q \<Rightarrow>
          if 10 ^ 21 \<le> \<bar>q\<bar> then number_toString q
          else (if q < 0 then ''-'' else []) @ insert_point (fixed_digits q))"

section \<open>Raw documents\<close>

text \<open>
  One element of the parsed JSON array that is not \<^verbatim>\<open>null\<close>. The source reads a raw document
  through optional chains such as \<^verbatim>\<open>item.listing_details?.location?.latitude\<close>, which give
  \<^verbatim>\<open>undefined\<close> when any link is missing; the record has one optional field for each chain
  that the import reads (\<open>None\<close> is \<^verbatim>\<open>undefined\<close> or \<^verbatim>\<open>null\<close>). Text fields hold strings, the
  coordinates hold numbers and the structured room counts hold non-negative integers. Room
  counts are naturals: the value of a digit run and its decimal rendering are exact, as they
  are in the source for counts below \<open>2\<^sup>5\<^sup>3\<close>.

  \<^item> \<open>custom_sub_titles\<close> is \<^verbatim>\<open>item.custom_sub_titles_with_rendering_flags\<close>, each entry given
    by its \<^verbatim>\<open>subtitle\<close>;
  \<^item> \<open>pdp_display_sections\<close> is \<^verbatim>\<open>item.listing_details?.pdp_display_sections\<close>, each section
    given by its \<^verbatim>\<open>pdp_fields\<close> and each field by its \<^verbatim>\<open>display_label\<close>;
  \<^item> \<open>first_listing_photo_uri\<close> is \<^verbatim>\<open>item.listing_details?.listing_photos?.[0]?.image?.uri\<close>.

  The file is the output of \<^verbatim>\<open>JSON.parse\<close> and nothing checks its types, so a document can
  hold a value on which the import throws a \<^verbatim>\<open>TypeError\<close>. The field \<open>type_error\<close> says where:

  \<^item> \<open>Some Extraction\<close>: a statement of lines 90 to 231 throws. The statements that can
    throw are the calls of a string method on a truthy value that has no such method, a
    number for instance (\<^verbatim>\<open>roomInfo.match\<close> at line 137, which is reached when both counts are
    still missing, \<^verbatim>\<open>subtitle.subtitle.includes\<close> at line 119, \<^verbatim>\<open>display_label.toLowerCase\<close> at
    line 150, \<^verbatim>\<open>text.toLowerCase\<close> at line 163), the loops over a truthy value that is not
    iterable (lines 118, 147 and 149), and the reads of a property of a \<^verbatim>\<open>null\<close> entry of such
    a list (\<^verbatim>\<open>subtitle.subtitle\<close>, \<^verbatim>\<open>section.pdp_fields\<close>, \<^verbatim>\<open>field.display_label\<close>). The two
    counting functions have handlers of their own and never throw;
  \<^item> \<open>Some Categorizer\<close>: lines 90 to 231 run to their end and \<^verbatim>\<open>description.toLowerCase\<close>
    throws in \<^verbatim>\<open>determineListingCategory\<close>, called at line 269 after the lookup. This is the
    case of a description text that is a truthy non-string on a document whose labels already
    gave the pet flag, so that line 163 is not run;
  \<^item> \<open>None\<close>: no statement of the turn throws a \<^verbatim>\<open>TypeError\<close>, and the other fields of the
    record determine what is extracted.

  Of a document with a type error the turn uses the identifier only.
\<close>

datatype throw_site = Extraction | Categorizer

record raw_item =
  item_id :: "string option"
  listing_price_amount :: "string option"
  reverse_geocode_city :: "string option"
  reverse_geocode_state :: "string option"
  reverse_geocode_detailed_city :: "string option"
  reverse_geocode_detailed_state :: "string option"
  reverse_geocode_detailed_postal_code :: "string option"
  home_address_street :: "string option"
  custom_sub_titles :: "string option list option"
  location_latitude :: "rat option"
  location_longitude :: "rat option"
  listing_title_text :: "string option"
  item_description :: "string option"
  item_bedrooms :: "nat option"
  item_bathrooms :: "nat option"
  unit_room_info :: "string option"
  pdp_display_sections :: "string option list option list option"
  redacted_description_text :: "string option"
  primary_listing_photo_uri :: "string option"
  first_listing_photo_uri :: "string option"
  marketplace_listing_title :: "string option"
  custom_title :: "string option"
  creation_time :: "string option"
  type_error :: "throw_site option"

section \<open>Field extraction\<close>

subsection \<open>Price\<close>

text \<open>Lines 90 to 99 of the import: the price in cents is \<open>0\<close> unless the amount is a
  non-empty string that \<^verbatim>\<open>parseFloat\<close> reads as a number.\<close>

definition priceInCents_of :: "raw_item \<Rightarrow> number" where
  "priceInCents_of item =
     (case listing_price_amount item of
        None \<Rightarrow> Finite 0
      | Some amount \<Rightarrow>
          if amount = [] then Finite 0
          else if \<not> isNaN (parseFloat amount)
          then math_round (js_times (parseFloat amount) 100)
          else Finite 0)"

text \<open>\<^verbatim>\<open>(priceInCents / 100).toFixed(2)\<close>, the price written to the store.\<close>

definition price_of :: "(rat \<Rightarrow> string) \<Rightarrow> raw_item \<Rightarrow> string" where
  "price_of number_toString item = toFixed2 number_toString (js_over (priceInCents_of item) 100)"

subsection \<open>Location\<close>

definition city_of :: "raw_item \<Rightarrow> string" where
  "city_of item = or_else (reverse_geocode_city item) (or_else (reverse_geocode_detailed_city item) [])"

definition state_of :: "raw_item \<Rightarrow> string" where
  "state_of item =
     or_else (reverse_geocode_state item) (or_else (reverse_geocode_detailed_state item) [])"

definition postalCode_of :: "raw_item \<Rightarrow> string" where
  "postalCode_of item = or_else (reverse_geocode_detailed_postal_code item) []"

text \<open>The loop over the subtitles (lines 118 to 123): the first entry whose subtitle is
  truthy and contains neither the city nor the state ends the loop.\<close>

fun scan_subtitles :: "string option list \<Rightarrow> string \<Rightarrow> string \<Rightarrow> string" where
  "scan_subtitles [] city state = []"
| "scan_subtitles (e # es) city state =
     (case e of
        None \<Rightarrow> scan_subtitles es city state
      | Some subtitle \<Rightarrow>
          if subtitle \<noteq> [] \<and> \<not> includes_str subtitle city \<and> \<not> includes_str subtitle state
          then subtitle
          else scan_subtitles es city state)"

definition streetAddress_of :: "raw_item \<Rightarrow> string" where
  "streetAddress_of item =
     (if truthy (home_address_street item) then or_else (home_address_street item) []
      else (case custom_sub_titles item of
              None \<Rightarrow> []
            | Some subs \<Rightarrow> scan_subtitles subs (city_of item) (state_of item)))"

text \<open>\<^verbatim>\<open>item.listing_details?.location?.latitude || null\<close>: a missing or zero coordinate
  is \<^verbatim>\<open>null\<close>.\<close>

definition nonzero :: "rat option \<Rightarrow> rat option" where
  "nonzero x = (case x of None \<Rightarrow> None | Some q \<Rightarrow> if q = 0 then None else Some q)"

definition latitude_of :: "raw_item \<Rightarrow> rat option" where
  "latitude_of item = nonzero (location_latitude item)"

definition longitude_of :: "raw_item \<Rightarrow> rat option" where
  "longitude_of item = nonzero (location_longitude item)"

subsection \<open>Bedroom and bathroom counts\<close>

text \<open>
  The regular expressions \<^verbatim>\<open>/(\d+)\s*bedroom/i\<close> and its three siblings: a run of digits,
  any white space, then the literal in either case. At a start position the greedy
  \<^verbatim>\<open>\d+\<close> and \<^verbatim>\<open>\s*\<close> take the longest runs, and giving characters back cannot help (the next
  character would be a digit or a space, not the literal's first letter), so the match at a
  position is decided by the longest runs. \<^verbatim>\<open>match\<close> returns the leftmost position that
  matches; the result is the captured digit run.
\<close>

definition count_match_at :: "string \<Rightarrow> string \<Rightarrow> string option" where
  "count_match_at lit s =
     (if takeWhile is_digit s \<noteq> [] \<and> ci_prefix lit (dropWhile is_space (dropWhile is_digit s))
      then Some (takeWhile is_digit s) else None)"

fun count_match :: "string \<Rightarrow> string \<Rightarrow> string option" where
  "count_match lit [] = None"
| "count_match lit (c # cs) =
     (case count_match_at lit (c # cs) of
        Some ds \<Rightarrow> Some ds
      | None \<Rightarrow> count_match lit cs)"

text \<open>\<^verbatim>\<open>parseInt\<close> of a captured digit run.\<close>

definition parseInt :: "string \<Rightarrow> nat" where
  "parseInt ds = digits_value ds"

definition extractBedroomCount :: "raw_item \<Rightarrow> nat option" where
  "extractBedroomCount item =
     (let title = or_else (listing_title_text item) [];
          desc = or_else (item_description item) [];
          in_title = (if title \<noteq> [] \<and> includes_str title ''bedroom''
                      then count_match ''bedroom'' title else None);
          in_desc = (if desc \<noteq> [] \<and> includes_str desc ''bedroom''
                     then count_match ''bedroom'' desc else None)
      in case in_title of
           Some ds \<Rightarrow> Some (parseInt ds)
         | None \<Rightarrow>
             (case in_desc of
                Some ds \<Rightarrow> Some (parseInt ds)
              | None \<Rightarrow> if truthy_count (item_bedrooms item) then item_bedrooms item else None))"

definition extractBathroomCount :: "raw_item \<Rightarrow> nat option" where
  "extractBathroomCount item =
     (let title = or_else (listing_title_text item) [];
          desc = or_else (item_description item) [];
          in_title = (if title \<noteq> [] \<and> includes_str title ''bathroom''
                      then count_match ''bathroom'' title else None);
          in_desc = (if desc \<noteq> [] \<and> includes_str desc ''bathroom''
                     then count_match ''bathroom'' desc else None)
      in case in_title of
           Some ds \<Rightarrow> Some (parseInt ds)
         | None \<Rightarrow>
             (case in_desc of
                Some ds \<Rightarrow> Some (parseInt ds)
              | None \<Rightarrow> if truthy_count (item_bathrooms item) then item_bathrooms item else None))"

text \<open>Lines 134 to 142: the room-info string is consulted only when it is truthy and both
  counts are falsy.\<close>

definition use_room_info :: "raw_item \<Rightarrow> bool" where
  "use_room_info item =
     (truthy (unit_room_info item) \<and> \<not> truthy_count (extractBedroomCount item)
      \<and> \<not> truthy_count (extractBathroomCount item))"

definition bedrooms_of :: "raw_item \<Rightarrow> nat option" where
  "bedrooms_of item =
     (if use_room_info item then
        (case count_match ''bed'' (or_else (unit_room_info item) []) of
           Some ds \<Rightarrow> Some (parseInt ds)
         | None \<Rightarrow> extractBedroomCount item)
      else extractBedroomCount item)"

definition bathrooms_of :: "raw_item \<Rightarrow> nat option" where
  "bathrooms_of item =
     (if use_room_info item then
        (case count_match ''bath'' (or_else (unit_room_info item) []) of
           Some ds \<Rightarrow> Some (parseInt ds)
         | None \<Rightarrow> extractBathroomCount item)
      else extractBathroomCount item)"

subsection \<open>Pet friendliness, available date, amenities, image\<close>

definition pet_label :: "string option \<Rightarrow> bool" where
  "pet_label label =
     (truthy label \<and>
      (includes_str (toLowerCase (or_else label [])) ''pet''
       \<or> includes_str (toLowerCase (or_else label [])) ''dog''
       \<or> includes_str (toLowerCase (or_else label [])) ''cat''))"

definition section_fields :: "string option list option \<Rightarrow> string option list" where
  "section_fields sec = (case sec of None \<Rightarrow> [] | Some fs \<Rightarrow> fs)"

definition sections_of :: "raw_item \<Rightarrow> string option list option list" where
  "sections_of item = (case pdp_display_sections item of None \<Rightarrow> [] | Some secs \<Rightarrow> secs)"

definition petFriendly_of :: "raw_item \<Rightarrow> bool" where
  "petFriendly_of item =
     (let in_labels = list_ex (\<lambda>sec. list_ex pet_label (section_fields sec)) (sections_of item);
          descText = toLowerCase (or_else (redacted_description_text item) [])
      in in_labels \<or>
         (truthy (redacted_description_text item) \<and>
          (includes_str descText ''pet friendly'' \<or> includes_str descText ''pets allowed''
           \<or> includes_str descText ''pet-friendly'' \<or> includes_str descText ''dogs allowed''
           \<or> includes_str descText ''cats allowed'')))"

text \<open>A date object is kept symbolic: \<open>DateOf s\<close> is \<^verbatim>\<open>new Date(s)\<close> and \<open>DateNow\<close> is
  \<^verbatim>\<open>new Date()\<close>, the time of the run.\<close>

datatype js_date = DateOf string | DateNow

text \<open>\<^verbatim>\<open>/Available\s+(\d{4}\/\d{2}\/\d{2})/i\<close>: the literal in either case, at least one white
  space, then four digits, a slash, two digits, a slash and two digits.\<close>

definition date_shape :: "string \<Rightarrow> bool" where
  "date_shape d =
     (length d = 10 \<and> list_all is_digit (take 4 d) \<and> d ! 4 = CHR ''/''
      \<and> list_all is_digit (take 2 (drop 5 d)) \<and> d ! 7 = CHR ''/''
      \<and> list_all is_digit (drop 8 d))"

definition available_match_at :: "string \<Rightarrow> string option" where
  "available_match_at s =
     (let r = drop 9 s; d = take 10 (dropWhile is_space r)
      in if ci_prefix ''available'' s \<and> takeWhile is_space r \<noteq> [] \<and> date_shape d
         then Some d else None)"

fun available_match :: "string \<Rightarrow> string option" where
  "available_match [] = None"
| "available_match (c # cs) =
     (case available_match_at (c # cs) of
        Some d \<Rightarrow> Some d
      | None \<Rightarrow> available_match cs)"

text \<open>The inner loop of lines 178 to 188 over the fields of one section: the first label
  that contains \<^verbatim>\<open>Available\<close> decides and ends the loop of that section.\<close>

fun scan_available :: "string option list \<Rightarrow> js_date option \<Rightarrow> js_date option" where
  "scan_available [] availableDate = availableDate"
| "scan_available (f # fs) availableDate =
     (if truthy f \<and> includes_str (or_else f []) ''Available'' then
        (case available_match (or_else f []) of
           Some d \<Rightarrow> Some (DateOf d)
         | None \<Rightarrow>
             if includes_str (toLowerCase (or_else f [])) ''now'' then Some DateNow
             else availableDate)
      else scan_available fs availableDate)"

definition availableDate_of :: "raw_item \<Rightarrow> js_date option" where
  "availableDate_of item =
     foldl (\<lambda>availableDate sec. scan_available (section_fields sec) availableDate)
       None (sections_of item)"

definition amenity_label :: "string option \<Rightarrow> bool" where
  "amenity_label label =
     (truthy label \<and> \<not> includes_str (or_else label []) ''bed''
      \<and> \<not> includes_str (or_else label []) ''bath''
      \<and> \<not> includes_str (or_else label []) ''Available'')"

definition amenities_of :: "raw_item \<Rightarrow> string list" where
  "amenities_of item =
     concat (map (\<lambda>sec. map (\<lambda>label. or_else label []) (filter amenity_label (section_fields sec)))
               (sections_of item))"

definition imageUrl_of :: "raw_item \<Rightarrow> string" where
  "imageUrl_of item =
     or_else (primary_listing_photo_uri item) (or_else (first_listing_photo_uri item) [])"

definition listingTitle_of :: "raw_item \<Rightarrow> string" where
  "listingTitle_of item = or_else (marketplace_listing_title item) (or_else (custom_title item) [])"

definition description_of :: "raw_item \<Rightarrow> string" where
  "description_of item = or_else (redacted_description_text item) []"

subsection \<open>The keyword categorizer\<close>

text \<open>\<^verbatim>\<open>determineListingCategory(description, bedrooms)\<close>, lines 361 to 403.\<close>

definition determineListingCategory :: "string option \<Rightarrow> nat option \<Rightarrow> string" where
  "determineListingCategory description bedrooms =
     (if \<not> truthy description then ''unknown''
      else (let desc = toLowerCase (or_else description [])
            in if includes_str desc ''airbnb'' \<or> includes_str desc ''short term''
                  \<or> includes_str desc ''short-term'' \<or> includes_str desc ''nightly''
                  \<or> includes_str desc ''per night'' \<or> includes_str desc ''vacation rental''
               then ''airbnb''
               else if includes_str desc ''studio'' then ''studio apartment''
               else if includes_str desc ''room for rent'' \<or> includes_str desc ''roommate''
                  \<or> includes_str desc ''shared apartment'' \<or> includes_str desc ''shared kitchen''
                  \<or> includes_str desc ''shared bathroom''
               then ''bedroom''
               else if includes_str desc ''shared room'' \<or> includes_str desc ''shared bedroom''
               then ''bed''
               else if truthy_count bedrooms
               then show_nat (case bedrooms of None \<Rightarrow> 0 | Some n \<Rightarrow> n) @ ''bdr apartment''
               else if includes_str desc ''1 bedroom'' \<or> includes_str desc ''1-bedroom''
                  \<or> includes_str desc ''one bedroom''
               then ''1bdr apartment''
               else if includes_str desc ''2 bedroom'' \<or> includes_str desc ''2-bedroom''
                  \<or> includes_str desc ''two bedroom''
               then ''2bdr apartment''
               else if includes_str desc ''3 bedroom'' \<or> includes_str desc ''3-bedroom''
                  \<or> includes_str desc ''three bedroom''
               then ''3bdr apartment''
               else if includes_str desc ''4 bedroom'' \<or> includes_str desc ''4-bedroom''
                  \<or> includes_str desc ''four bedroom''
               then ''4bdr apartment''
               else ''unknown''))"

section \<open>The store\<close>

text \<open>
  The object \<^verbatim>\<open>dbData\<close> that the import hands to the persistence gateway. A key that the
  import does not set is \<open>None\<close>.
\<close>

record db_data =
  data_id :: string
  data_price :: string
  data_listingTitle :: "string option"
  data_city :: "string option"
  data_state :: "string option"
  data_postalCode :: "string option"
  data_streetAddress :: "string option"
  data_description :: "string option"
  data_latitude :: "string option"
  data_longitude :: "string option"
  data_bedrooms :: "nat option"
  data_bathrooms :: "nat option"
  data_amenities :: "string list option"
  data_petFriendly :: "bool option"
  data_availableDate :: "js_date option"
  data_imageUrl :: "string option"
  data_listedDate :: "js_date option"
  data_ai_category_v1 :: "string option"

text \<open>
  A row of the table \<^verbatim>\<open>Listing\<close> of the schema, a nullable column as an option. The price is
  kept as the text that was written. The time stamps \<^verbatim>\<open>scrapedAt\<close> and \<^verbatim>\<open>updatedAt\<close>, which
  the gateway maintains by itself, are left out.
\<close>

record listing_row =
  row_id :: string
  listingTitle :: "string option"
  price :: string
  city :: "string option"
  state :: "string option"
  postalCode :: "string option"
  streetAddress :: "string option"
  latitude :: "string option"
  longitude :: "string option"
  squareFeet :: "nat option"
  bedrooms :: "nat option"
  bathrooms :: "nat option"
  description :: "string option"
  amenities :: "string list"
  petFriendly :: "bool option"
  availableDate :: "js_date option"
  listedDate :: js_date
  ai_category_v1 :: "string option"
  imageUrl :: "string option"
  listingUrl :: "string option"
  country :: "string option"

text \<open>A row of the table \<^verbatim>\<open>PriceHistory\<close> of the schema.\<close>

record price_history_entry =
  history_listingId :: string
  history_price :: string
  history_recordedAt :: js_date

text \<open>The calls that the two programs make to the gateway.\<close>

datatype db_op =
    FindUnique string
  | Update string db_data
  | Create db_data
  | FindManyUncategorized
  | UpdateCategory string string

text \<open>The one console message that depends on a decision of the import: the price change
  of a listing, with the old and the new price text.\<close>

datatype log_event = PriceChange string string string

text \<open>
  The world of a run: the two tables, the calls made to the gateway so far, and the price
  changes written to the console.
\<close>

record world =
  rows :: "listing_row list"
  priceHistory :: "price_history_entry list"
  trace :: "db_op list"
  console :: "log_event list"

text \<open>
  What the programs take from outside:
  \<^item> \<open>number_toString\<close>, \<^verbatim>\<open>Number.prototype.toString\<close> on a finite number, used for the
    coordinates and by \<^verbatim>\<open>toFixed\<close> from \<open>10\<^sup>2\<^sup>1\<close> on;
  \<^item> \<open>decimal_toString\<close>, the text that \<^verbatim>\<open>toString\<close> gives for a price read back from the
    store, as a function of the text that was written;
  \<^item> \<open>db_fails\<close>, whether a call to the gateway throws, given the calls made before it;
  \<^item> \<open>gemini_api_key\<close>, the environment variable, and \<open>prompt_template\<close>, the content of the
    prompt file (\<open>None\<close> when it cannot be read);
  \<^item> \<open>generateContent\<close>, the response text of the model for a batch (\<open>None\<close> when the request throws).
    The prompt is a function of the batch and the template, so the model is given the batch.
\<close>

record env =
  number_toString :: "rat \<Rightarrow> string"
  decimal_toString :: "string \<Rightarrow> string"
  db_fails :: "db_op list \<Rightarrow> db_op \<Rightarrow> bool"
  gemini_api_key :: "string option"
  prompt_template :: "string option"
  generateContent :: "listing_row list \<Rightarrow> string option"

text \<open>\<^verbatim>\<open>findUnique\<close>: the row with the given identifier.\<close>

definition findUnique :: "string \<Rightarrow> listing_row list \<Rightarrow> listing_row option" where
  "findUnique lid rs = find (\<lambda>r. row_id r = lid) rs"

text \<open>A key of an update that is absent leaves the column as it is.\<close>

definition opt_write :: "'a option \<Rightarrow> 'a option \<Rightarrow> 'a option" where
  "opt_write new old = (case new of None \<Rightarrow> old | Some v \<Rightarrow> Some v)"

definition apply_update :: "db_data \<Rightarrow> listing_row \<Rightarrow> listing_row" where
  "apply_update data r =
     r\<lparr> row_id := data_id data,
        price := data_price data,
        listingTitle := opt_write (data_listingTitle data) (listingTitle r),
        city := opt_write (data_city data) (city r),
        state := opt_write (data_state data) (state r),
        postalCode := opt_write (data_postalCode data) (postalCode r),
        streetAddress := opt_write (data_streetAddress data) (streetAddress r),
        description := opt_write (data_description data) (description r),
        latitude := opt_write (data_latitude data) (latitude r),
        longitude := opt_write (data_longitude data) (longitude r),
        bedrooms := opt_write (data_bedrooms data) (bedrooms r),
        bathrooms := opt_write (data_bathrooms data) (bathrooms r),
        amenities := (case data_amenities data of None \<Rightarrow> amenities r | Some a \<Rightarrow> a),
        petFriendly := opt_write (data_petFriendly data) (petFriendly r),
        availableDate := opt_write (data_availableDate data) (availableDate r),
        imageUrl := opt_write (data_imageUrl data) (imageUrl r),
        listedDate := (case data_listedDate data of None \<Rightarrow> listedDate r | Some d \<Rightarrow> d),
        ai_category_v1 := opt_write (data_ai_category_v1 data) (ai_category_v1 r) \<rparr>"

text \<open>A created row: an absent key gives the column its default of the schema
  (\<^verbatim>\<open>NULL\<close>, the empty list, \<^verbatim>\<open>false\<close>, \<^verbatim>\<open>now()\<close>).\<close>

definition create_row :: "db_data \<Rightarrow> listing_row" where
  "create_row data =
     \<lparr> row_id = data_id data,
       listingTitle = data_listingTitle data,
       price = data_price data,
       city = data_city data,
       state = data_state data,
       postalCode = data_postalCode data,
       streetAddress = data_streetAddress data,
       latitude = data_latitude data,
       longitude = data_longitude data,
       squareFeet = None,
       bedrooms = data_bedrooms data,
       bathrooms = data_bathrooms data,
       description = data_description data,
       amenities = (case data_amenities data of None \<Rightarrow> [] | Some a \<Rightarrow> a),
       petFriendly = (case data_petFriendly data of None \<Rightarrow> Some False | Some b \<Rightarrow> Some b),
       availableDate = data_availableDate data,
       listedDate = (case data_listedDate data of None \<Rightarrow> DateNow | Some d \<Rightarrow> d),
       ai_category_v1 = data_ai_category_v1 data,
       imageUrl = data_imageUrl data,
       listingUrl = None,
       country = None \<rparr>"

section \<open>The import\<close>

record import_stats =
  newListings :: nat
  updatedListings :: nat
  skippedListings :: nat
  totalProcessed :: nat
  errors :: nat

definition present :: "string \<Rightarrow> string option" where
  "present s = (if s = [] then None else Some s)"

text \<open>
  Lines 244 to 269: the record that is written. The identifier, the price, the pet flag (a
  boolean, so never \<^verbatim>\<open>null\<close>) and the category are always set; every other key is set only
  when its value is truthy.
\<close>

definition build_dbData :: "env \<Rightarrow> string \<Rightarrow> raw_item \<Rightarrow> db_data" where
  "build_dbData e lid item =
     \<lparr> data_id = lid,
       data_price = price_of (number_toString e) item,
       data_listingTitle = present (listingTitle_of item),
       data_city = present (city_of item),
       data_state = present (state_of item),
       data_postalCode = present (postalCode_of item),
       data_streetAddress = present (streetAddress_of item),
       data_description = present (description_of item),
       data_latitude = map_option (number_toString e) (latitude_of item),
       data_longitude = map_option (number_toString e) (longitude_of item),
       data_bedrooms = (if truthy_count (bedrooms_of item) then bedrooms_of item else None),
       data_bathrooms = (if truthy_count (bathrooms_of item) then bathrooms_of item else None),
       data_amenities = (if 0 < length (amenities_of item) then Some (amenities_of item) else None),
       data_petFriendly = Some (petFriendly_of item),
       data_availableDate = availableDate_of item,
       data_imageUrl = present (imageUrl_of item),
       data_listedDate = (if truthy (creation_time item)
                          then Some (DateOf (or_else (creation_time item) [])) else None),
       data_ai_category_v1 =
         Some (determineListingCategory (present (description_of item)) (bedrooms_of item)) \<rparr>"

text \<open>
  One turn of the loop of \<^verbatim>\<open>importListings\<close> (lines 86 to 301) on a document that is not
  \<^verbatim>\<open>null\<close>. The whole extraction (lines 90 to 231) runs inside the \<^verbatim>\<open>try\<close> of the turn, before the
  identifier is tested at line 234: when it throws, the handler of the turn (lines 297 to
  300) counts an error and the turn ends without any call to the gateway. Otherwise a
  document without a truthy identifier is skipped before any call to the gateway. A call to
  the gateway that throws, and the categorizer throwing at line 269 after the lookup, are
  caught by the same handler. For a listing that exists the two price texts are compared and
  a difference is written to the console; then the row is updated.
\<close>

definition process_item :: "env \<Rightarrow> import_stats \<times> world \<Rightarrow> raw_item \<Rightarrow> import_stats \<times> world" where
  "process_item e sw item =
     (let stats = (fst sw)\<lparr> totalProcessed := totalProcessed (fst sw) + 1 \<rparr>;
          w = snd sw
      in if type_error item = Some Extraction
         then (stats\<lparr> errors := errors stats + 1 \<rparr>, w)
         else if \<not> truthy (item_id item)
         then (stats\<lparr> skippedListings := skippedListings stats + 1 \<rparr>, w)
         else
          (let lid = or_else (item_id item) [];
               w1 = w\<lparr> trace := trace w @ [FindUnique lid] \<rparr>
           in if db_fails e (trace w) (FindUnique lid)
              then (stats\<lparr> errors := errors stats + 1 \<rparr>, w1)
              else if type_error item = Some Categorizer
              then (stats\<lparr> errors := errors stats + 1 \<rparr>, w1)
              else
               (let dbData = build_dbData e lid item
                in case findUnique lid (rows w1) of
                     Some existingListing \<Rightarrow>
                       (let existingPriceStr = decimal_toString e (price existingListing);
                            newPriceStr =
                              toFixed2 (number_toString e) (parseFloat (data_price dbData));
                            w2 = (if existingPriceStr \<noteq> newPriceStr
                                  then w1\<lparr> console := console w1
                                               @ [PriceChange lid existingPriceStr newPriceStr] \<rparr>
                                  else w1);
                            w3 = w2\<lparr> trace := trace w2 @ [Update lid dbData] \<rparr>
                        in if db_fails e (trace w2) (Update lid dbData)
                           then (stats\<lparr> errors := errors stats + 1 \<rparr>, w3)
                           else (stats\<lparr> updatedListings := updatedListings stats + 1 \<rparr>,
                                 w3\<lparr> rows := map (\<lambda>r. if row_id r = lid
                                                       then apply_update dbData r else r)
                                                (rows w3) \<rparr>))
                   | None \<Rightarrow>
                       (let w3 = w1\<lparr> trace := trace w1 @ [Create dbData] \<rparr>
                        in if db_fails e (trace w1) (Create dbData)
                           then (stats\<lparr> errors := errors stats + 1 \<rparr>, w3)
                           else (stats\<lparr> newListings := newListings stats + 1 \<rparr>,
                                 w3\<lparr> rows := rows w3 @ [create_row dbData] \<rparr>)))))"

definition zero_stats :: import_stats where
  "zero_stats = \<lparr> newListings = 0, updatedListings = 0, skippedListings = 0,
                  totalProcessed = 0, errors = 0 \<rparr>"

text \<open>
  The loop over the elements of the file (lines 86 to 301). An element of the array can be
  \<^verbatim>\<open>null\<close> (\<open>None\<close>): then \<^verbatim>\<open>item.listing_price\<close> throws at line 92, the handler of the turn counts
  an error at line 298 and throws itself at line 299, where it reads \<^verbatim>\<open>item.id\<close>; this second
  error leaves the loop and reaches the handler of the function (lines 305 to 309), which
  counts one more error and returns: the rest of the file is not processed. An element that
  is a number, a string or a boolean has no property at all and is the document with every
  field missing.
\<close>

fun import_loop :: "env \<Rightarrow> import_stats \<times> world \<Rightarrow> raw_item option list \<Rightarrow> import_stats \<times> world"
  where
  "import_loop e sw [] = sw"
| "import_loop e sw (None # rest) =
     ((fst sw)\<lparr> totalProcessed := totalProcessed (fst sw) + 1,
                errors := errors (fst sw) + 2 \<rparr>, snd sw)"
| "import_loop e sw (Some item # rest) = import_loop e (process_item e sw item) rest"

text \<open>\<^verbatim>\<open>importListings\<close>: the elements of one file in order; a file that cannot be read or
  parsed, or whose content is not a list (\<open>None\<close>), counts one error.\<close>

definition importListings :: "env \<Rightarrow> world \<Rightarrow> raw_item option list option \<Rightarrow> import_stats \<times> world"
  where
  "importListings e w file =
     (case file of
        None \<Rightarrow> (zero_stats\<lparr> errors := 1 \<rparr>, w)
      | Some listings \<Rightarrow> import_loop e (zero_stats, w) listings)"

section \<open>The classifier client\<close>

definition VALID_CATEGORIES :: "string list" where
  "VALID_CATEGORIES =
     [''airbnb'', ''studio apartment'', ''1bdr apartment'', ''2bdr apartment'',
      ''3bdr apartment'', ''4bdr apartment'', ''bedroom'', ''bed'', ''other'', ''unknown'']"

datatype error =
    MissingResponse nat nat nat
  | InvalidFormat nat
  | InvalidCategory nat string
  | CountMismatch nat nat
  | OracleError
  | ConfigurationError
  | PromptTemplateError
  | DatabaseError

text \<open>\<^verbatim>\<open>(.+)$\<close> on the rest of a line: at least one character and no line terminator.\<close>

definition dot_plus :: "string \<Rightarrow> bool" where
  "dot_plus s = (s \<noteq> [] \<and> \<not> list_ex is_line_terminator s)"

text \<open>
  \<^verbatim>\<open>/^\d+\.\s*(.+)$/\<close>: a run of digits, a full stop, then the greedy \<^verbatim>\<open>\s*\<close>, which gives
  white space back one character at a time until the rest is matched by \<^verbatim>\<open>(.+)$\<close>. The
  result is the captured rest.
\<close>

definition match_numbered :: "string \<Rightarrow> string option" where
  "match_numbered line =
     (if takeWhile is_digit line = [] then None
      else (case dropWhile is_digit line of
              [] \<Rightarrow> None
            | c # tail \<Rightarrow>
                if c \<noteq> CHR ''.'' then None
                else find dot_plus
                       (map (\<lambda>k. drop k tail)
                          (rev [0 ..< Suc (length (takeWhile is_space tail))]))))"

text \<open>\<^verbatim>\<open>/^(.+)$/\<close>.\<close>

definition match_plain :: "string \<Rightarrow> string option" where
  "match_plain line = (if dot_plus line then Some line else None)"

text \<open>\<^verbatim>\<open>line.match(/^\d+\.\s*(.+)$/) || line.match(/^(.+)$/)\<close>, the captured group.\<close>

definition line_match :: "string \<Rightarrow> string option" where
  "line_match line =
     (case match_numbered line of Some g \<Rightarrow> Some g | None \<Rightarrow> match_plain line)"

text \<open>The loop of \<^verbatim>\<open>parseAIResponse\<close> (lines 85 to 105) from index \<open>i\<close> on, with the
  categories pushed so far.\<close>

function parse_loop :: "string list \<Rightarrow> nat \<Rightarrow> nat \<Rightarrow> string list \<Rightarrow> error + string list" where
  "parse_loop lines batchSize i categories =
     (if i < batchSize then
        (if i < length lines \<and> lines ! i \<noteq> [] then
           (case line_match (lines ! i) of
              None \<Rightarrow> Inl (InvalidFormat (i + 1))
            | Some g \<Rightarrow>
                if toLowerCase (trim g) \<notin> set VALID_CATEGORIES
                then Inl (InvalidCategory (i + 1) (toLowerCase (trim g)))
                else parse_loop lines batchSize (i + 1) (categories @ [toLowerCase (trim g)]))
         else Inl (MissingResponse (i + 1) batchSize (length lines)))
      else Inr categories)"
  by pat_completeness auto
termination
  by (relation "measure (\<lambda>(lines, batchSize, i, categories). batchSize - i)") auto

declare parse_loop.simps [simp del]

definition parseAIResponse :: "string \<Rightarrow> nat \<Rightarrow> error + string list" where
  "parseAIResponse response batchSize =
     (case parse_loop (split_lines (trim response)) batchSize 0 [] of
        Inl err \<Rightarrow> Inl err
      | Inr categories \<Rightarrow>
          if length categories \<noteq> batchSize
          then Inl (CountMismatch batchSize (length categories))
          else Inr categories)"

text \<open>\<^verbatim>\<open>processBatch\<close>: the request, the parse, and the map from identifier to category in
  insertion order (\<^verbatim>\<open>Map.set\<close> replaces the value of a key that is already there).\<close>

definition processBatch :: "env \<Rightarrow> listing_row list \<Rightarrow> error + (string \<times> string) list" where
  "processBatch e listings =
     (case generateContent e listings of
        None \<Rightarrow> Inl OracleError
      | Some response \<Rightarrow>
          (case parseAIResponse response (length listings) of
             Inl err \<Rightarrow> Inl err
           | Inr categories \<Rightarrow>
               Inr (foldl (\<lambda>categoryMap lc. AList.update (row_id (fst lc)) (snd lc) categoryMap)
                      [] (zip listings categories))))"

text \<open>The loop over the entries of the map (lines 204 to 210): one update per entry; an
  update that throws, or that finds no row, ends the loop. The result says whether the loop
  ran to its end.\<close>

fun apply_categories ::
  "env \<Rightarrow> (string \<times> string) list \<Rightarrow> nat \<times> world \<Rightarrow> bool \<times> nat \<times> world" where
  "apply_categories e [] (total_processed, w) = (True, total_processed, w)"
| "apply_categories e ((listingId, category) # entries) (total_processed, w) =
     (let w1 = w\<lparr> trace := trace w @ [UpdateCategory listingId category] \<rparr>
      in if db_fails e (trace w) (UpdateCategory listingId category)
            \<or> findUnique listingId (rows w) = None
         then (False, total_processed, w1)
         else apply_categories e entries
                (total_processed + 1,
                 w1\<lparr> rows := map (\<lambda>r. if row_id r = listingId
                                       then r\<lparr> ai_category_v1 := Some category \<rparr> else r)
                                (rows w1) \<rparr>))"

text \<open>One turn of the loop over the batches (lines 196 to 226): a batch that fails is
  counted in \<^verbatim>\<open>totalErrors\<close> and the loop goes on.\<close>

definition batch_step :: "env \<Rightarrow> listing_row list \<Rightarrow> nat \<times> nat \<times> world \<Rightarrow> nat \<times> nat \<times> world" where
  "batch_step e batch st =
     (case st of (total_processed, total_errors, w) \<Rightarrow>
        (case processBatch e batch of
           Inl err \<Rightarrow> (total_processed, total_errors + length batch, w)
         | Inr categoryMap \<Rightarrow>
             (case apply_categories e categoryMap (total_processed, w) of
                (ok, total_processed', w') \<Rightarrow>
                  (total_processed', (if ok then total_errors else total_errors + length batch), w'))))"

definition batchSize_const :: nat where
  "batchSize_const = 50"

function categorize_loop ::
  "env \<Rightarrow> listing_row list \<Rightarrow> nat \<Rightarrow> nat \<times> nat \<times> world \<Rightarrow> nat \<times> nat \<times> world" where
  "categorize_loop e listings i st =
     (if i < length listings
      then categorize_loop e listings (i + batchSize_const)
             (batch_step e (take batchSize_const (drop i listings)) st)
      else st)"
  by pat_completeness auto
termination
  by (relation "measure (\<lambda>(e, listings, i, st). length listings - i)")
     (auto simp: batchSize_const_def)

declare categorize_loop.simps [simp del]

text \<open>The rows that the sweep selects: the category is the empty string or \<^verbatim>\<open>NULL\<close>.\<close>

definition needs_category :: "listing_row \<Rightarrow> bool" where
  "needs_category r = (ai_category_v1 r = Some [] \<or> ai_category_v1 r = None)"

text \<open>\<^verbatim>\<open>categorizeAllListings\<close>: the result is the two counters and the world, or the error
  that ends the run.\<close>

definition categorizeAllListings :: "env \<Rightarrow> world \<Rightarrow> error + (nat \<times> nat \<times> world)" where
  "categorizeAllListings e w =
     (if \<not> truthy (gemini_api_key e) then Inl ConfigurationError
      else (case prompt_template e of
              None \<Rightarrow> Inl PromptTemplateError
            | Some promptTemplate \<Rightarrow>
                (let w1 = w\<lparr> trace := trace w @ [FindManyUncategorized] \<rparr>
                 in if db_fails e (trace w) FindManyUncategorized then Inl DatabaseError
                    else (let listings = filter needs_category (rows w1)
                          in if length listings = 0 then Inr (0, 0, w1)
                             else Inr (categorize_loop e listings 0 (0, 0, w1))))))"

text \<open>The category that the loop of \<^verbatim>\<open>parseAIResponse\<close> reads from one line: the captured
  group, trimmed and in lower case; \<open>None\<close> when neither expression matches.\<close>

definition line_category :: "string \<Rightarrow> string option" where
  "line_category line = map_option (\<lambda>g. toLowerCase (trim g)) (line_match line)"

section \<open>The specification's wording\<close>

text \<open>
  The keyword categorizer as the specification words it: a list of rules in priority order,
  each a condition and a category, the first rule whose condition holds decides, and
  \<^verbatim>\<open>unknown\<close> when the description is absent or no rule fires. A bedroom count is known when
  it is present and not zero.
\<close>

definition contains_any :: "string \<Rightarrow> string list \<Rightarrow> bool" where
  "contains_any desc phrases = list_ex (includes_str desc) phrases"

definition spec_rules :: "string \<Rightarrow> nat option \<Rightarrow> (bool \<times> string) list" where
  "spec_rules desc beds =
     [(contains_any desc [''airbnb'', ''short term'', ''short-term'', ''nightly'', ''per night'',
                          ''vacation rental''], ''airbnb''),
      (contains_any desc [''studio''], ''studio apartment''),
      (contains_any desc [''room for rent'', ''roommate'', ''shared apartment'',
                          ''shared kitchen'', ''shared bathroom''], ''bedroom''),
      (contains_any desc [''shared room'', ''shared bedroom''], ''bed''),
      (truthy_count beds,
       show_nat (case beds of None \<Rightarrow> 0 | Some n \<Rightarrow> n) @ ''bdr apartment''),
      (contains_any desc [''1 bedroom'', ''1-bedroom'', ''one bedroom''], ''1bdr apartment''),
      (contains_any desc [''2 bedroom'', ''2-bedroom'', ''two bedroom''], ''2bdr apartment''),
      (contains_any desc [''3 bedroom'', ''3-bedroom'', ''three bedroom''], ''3bdr apartment''),
      (contains_any desc [''4 bedroom'', ''4-bedroom'', ''four bedroom''], ''4bdr apartment'')]"

definition first_match :: "(bool \<times> string) list \<Rightarrow> string \<Rightarrow> string" where
  "first_match rules dflt = (case find fst rules of Some rule \<Rightarrow> snd rule | None \<Rightarrow> dflt)"

definition spec_categorize :: "string option \<Rightarrow> nat option \<Rightarrow> string" where
  "spec_categorize descr beds =
     (case descr of
        None \<Rightarrow> ''unknown''
      | Some d \<Rightarrow>
          if d = [] then ''unknown''
          else first_match (spec_rules (toLowerCase d) beds) ''unknown'')"

text \<open>
  A response line as the specification words its normalization: an optional leading ordinal
  (digits, a full stop and any white space after it) is stripped, and the rest is put in
  lower case and trimmed.
\<close>

definition strip_ordinal :: "string \<Rightarrow> string" where
  "strip_ordinal line =
     (if takeWhile is_digit line \<noteq> [] \<and> prefix ''.'' (dropWhile is_digit line)
      then dropWhile is_space (drop 1 (dropWhile is_digit line))
      else line)"

definition spec_normalize :: "string \<Rightarrow> string" where
  "spec_normalize line = trim (toLowerCase (strip_ordinal line))"


text \<open>The subtitle strings of a list of subtitle entries.\<close>

definition subtitle_strings :: "string option list \<Rightarrow> string list" where
  "subtitle_strings subs = concat (map (\<lambda>e. case e of None \<Rightarrow> [] | Some t \<Rightarrow> [t]) subs)"

text \<open>The street address as the specification words the special case: the first subtitle
  that contains neither the city nor the state, and the empty string when there is none.\<close>

definition claimed_street :: "string option list \<Rightarrow> string \<Rightarrow> string \<Rightarrow> string" where
  "claimed_street subs c st =
     (case find (\<lambda>t. \<not> includes_str t c \<and> \<not> includes_str t st) (subtitle_strings subs) of
        None \<Rightarrow> []
      | Some t \<Rightarrow> t)"






section \<open>Example values\<close>

definition empty_item :: raw_item where
  "empty_item =
     \<lparr> item_id = None, listing_price_amount = None, reverse_geocode_city = None,
       reverse_geocode_state = None, reverse_geocode_detailed_city = None,
       reverse_geocode_detailed_state = None, reverse_geocode_detailed_postal_code = None,
       home_address_street = None, custom_sub_titles = None, location_latitude = None,
       location_longitude = None, listing_title_text = None, item_description = None,
       item_bedrooms = None, item_bathrooms = None, unit_room_info = None,
       pdp_display_sections = None, redacted_description_text = None,
       primary_listing_photo_uri = None, first_listing_photo_uri = None,
       marketplace_listing_title = None, custom_title = None, creation_time = None,
       type_error = None \<rparr>"

definition blank_row :: "string \<Rightarrow> string \<Rightarrow> listing_row" where
  "blank_row lid p =
     \<lparr> row_id = lid, listingTitle = None, price = p, city = None, state = None,
       postalCode = None, streetAddress = None, latitude = None, longitude = None,
       squareFeet = None, bedrooms = None, bathrooms = None, description = None,
       amenities = [], petFriendly = Some False, availableDate = None, listedDate = DateNow,
       ai_category_v1 = None, imageUrl = None, listingUrl = None, country = None \<rparr>"

text \<open>An environment in which no call fails, a price reads back as it was written, and the
  model answers with two lines.\<close>

definition env0 :: env where
  "env0 =
     \<lparr> number_toString = (\<lambda>q. []), decimal_toString = (\<lambda>p. p),
       db_fails = (\<lambda>tr op. False), gemini_api_key = Some ''key'',
       prompt_template = Some ''[insert listings, numbered]'',
       generateContent = (\<lambda>batch. Some (''1. bed'' @ [CHR 0x0A] @ ''Studio Apartment'')) \<rparr>"

definition world_of :: "listing_row list \<Rightarrow> world" where
  "world_of rs = \<lparr> rows = rs, priceHistory = [], trace = [], console = [] \<rparr>"


definition item_c9 :: raw_item where
  "item_c9 = empty_item\<lparr> custom_sub_titles := Some [Some [], Some ''123 Main St''],
     reverse_geocode_city := Some ''Halifax'', reverse_geocode_state := Some ''NS'' \<rparr>"

text \<open>A stored row none of whose fields is at the value the import writes for a document
  that holds nothing.\<close>

definition row_halifax :: listing_row where
  "row_halifax = (blank_row ''L1'' ''1200.00'')\<lparr> city := Some ''Halifax'', bedrooms := Some 2,
     petFriendly := Some True, ai_category_v1 := Some ''2bdr apartment'' \<rparr>"

definition item_bedrooms3 :: raw_item where
  "item_bedrooms3 = empty_item\<lparr> item_id := Some ''L1'', item_bedrooms := Some 3 \<rparr>"

definition row_other :: listing_row where
  "row_other = (blank_row ''L1'' ''0.00'')\<lparr> ai_category_v1 := Some ''other'' \<rparr>"

definition item_L1 :: raw_item where
  "item_L1 = empty_item\<lparr> item_id := Some ''L1'' \<rparr>"


definition item_priced :: "string \<Rightarrow> raw_item" where
  "item_priced amount = empty_item\<lparr> listing_price_amount := Some amount \<rparr>"

definition row_uncategorized :: listing_row where
  "row_uncategorized = blank_row ''L2'' ''0.00''"

definition response_three_lines :: string where
  "response_three_lines =
     ''1. bed'' @ [CHR 0x0A] @ ''Studio Apartment'' @ [CHR 0x0A] @ ''no category here''"


definition response_cr_line :: string where
  "response_cr_line = ''bed'' @ [CHR 0x0D, CHR 0x0A] @ ''bed''"

section \<open>Relations used in the proofs\<close>

text \<open>Two rows that are equal, or that differ in the category only, for a row whose
  identifier is in \<open>K\<close>; and two tables related row by row.\<close>

definition only_category :: "string set \<Rightarrow> listing_row \<Rightarrow> listing_row \<Rightarrow> bool" where
  "only_category K r r' =
     (r' = r \<or> (row_id r \<in> K \<and> (\<exists>c. r' = r\<lparr> ai_category_v1 := Some c \<rparr>)))"

definition rows_rel :: "string set \<Rightarrow> listing_row list \<Rightarrow> listing_row list \<Rightarrow> bool" where
  "rows_rel K rs rs' = list_all2 (only_category K) rs rs'"

section \<open>Evaluation lemmas\<close>

lemma floor_rat_numeral:
  "\<lfloor>(numeral a :: rat) / numeral b\<rfloor> = numeral a div numeral b"
  "\<lfloor>- (numeral a :: rat) / numeral b\<rfloor> = - numeral a div numeral b"
  "\<lfloor>- ((numeral a :: rat) / numeral b)\<rfloor> = - numeral a div numeral b"
  using floor_divide_of_int_eq [of "numeral a" "numeral b", where ?'a = rat]
    floor_divide_of_int_eq [of "- numeral a" "numeral b", where ?'a = rat]
  by simp_all

lemmas round_eval = round_double_def round_at_def pack_double_def round_half_even_def
  nearest_even_def floor_log2_def low_log2_def log2_nat_def pow_int_def floor_rat_numeral

lemmas parse_eval = parseFloat_def parse_signed_def is_negative_def strip_sign_def
  unsigned_literal_def fraction_digits_def after_fraction_def exponent_part_def
  is_digit_def is_space_def digits_value_def digit_val_def

lemmas fixed_eval = toFixed2_def insert_point_def fixed_digits_def pad3_def show_nat.simps
  digit_char_def floor_rat_numeral

lemmas str_eval = toLowerCase_def lower_char_def upper_chars_def lower_chars_def truthy_def
  or_else_def truthy_count_def


lemmas extract_defs = build_dbData_def listingTitle_of_def city_of_def state_of_def
  postalCode_of_def streetAddress_of_def description_of_def latitude_of_def longitude_of_def
  nonzero_def bedrooms_of_def bathrooms_of_def use_room_info_def extractBedroomCount_def
  extractBathroomCount_def amenities_of_def petFriendly_of_def availableDate_of_def
  imageUrl_of_def sections_of_def section_fields_def present_def

lemma parseFloat_1250: "parseFloat ''1250'' = Finite 1250"
  by (simp add: parse_eval round_eval)

lemma parseFloat_1250_00: "parseFloat ''1250.00'' = Finite 1250"
  by (simp add: parse_eval round_eval)

lemma parseFloat_1234_5: "parseFloat ''1234.5'' = Finite (2469 / 2)"
  by (simp add: parse_eval round_eval)

lemma cents_1250: "math_round (js_times (Finite 1250) 100) = Finite 125000"
  by (simp add: math_round_def js_times_def round_eval)

lemma cents_1234_5: "math_round (js_times (Finite (2469 / 2)) 100) = Finite 123450"
  by (simp add: math_round_def js_times_def round_eval)

lemma price_text_1250: "toFixed2 nts (js_over (Finite 125000) 100) = ''1250.00''"
  by (simp add: js_over_def round_eval fixed_eval)

lemma price_text_1234_5: "toFixed2 nts (js_over (Finite 123450) 100) = ''1234.50''"
  by (simp add: js_over_def round_eval fixed_eval)

lemma reparse_1250: "toFixed2 nts (parseFloat ''1250.00'') = ''1250.00''"
  by (simp add: parseFloat_1250_00 fixed_eval)

lemma reparse_0: "toFixed2 nts (parseFloat ''0.00'') = ''0.00''"
  by (simp add: parse_eval round_eval fixed_eval)

lemma price_of_1250:
  "listing_price_amount item = Some ''1250'' \<Longrightarrow> price_of nts item = ''1250.00''"
  by (simp add: price_of_def priceInCents_of_def isNaN_def parseFloat_1250 cents_1250
      price_text_1250)

lemma price_of_missing:
  "listing_price_amount item = None \<Longrightarrow> price_of nts item = ''0.00''"
  by (simp add: price_of_def priceInCents_of_def js_over_def round_double_def fixed_eval)

lemma cents_of_1234_5:
  "priceInCents_of (item\<lparr> listing_price_amount := Some ''1234.5'' \<rparr>) = Finite 123450"
  by (simp add: priceInCents_of_def isNaN_def parseFloat_1234_5 cents_1234_5)

text \<open>The arithmetic is that of binary64: the amount \<^verbatim>\<open>1.255\<close> is read as the nearest
  binary64 value, which lies below \<open>1.255\<close>, and gives 125 cents.\<close>

lemma cents_of_1_255:
  "priceInCents_of (item\<lparr> listing_price_amount := Some ''1.255'' \<rparr>) = Finite 125"
  by (simp add: priceInCents_of_def isNaN_def parse_eval math_round_def js_times_def round_eval)

lemmas line_eval = parseAIResponse_def line_match_def match_numbered_def match_plain_def
  dot_plus_def is_line_terminator_def is_digit_def is_space_def trim_def toLowerCase_def
  lower_char_def upper_chars_def lower_chars_def VALID_CATEGORIES_def line_category_def

lemma env0_simps:
  "db_fails env0 tr op = False"
  "gemini_api_key env0 = Some ''key''"
  "prompt_template env0 = Some ''[insert listings, numbered]''"
  "generateContent env0 batch = Some (''1. bed'' @ [CHR 0x0A] @ ''Studio Apartment'')"
  "decimal_toString env0 p = p"
  "number_toString env0 = (\<lambda>q. [])"
  by (simp_all add: env0_def)

lemma parse_two:
  "parseAIResponse (''1. bed'' @ [CHR 0x0A] @ ''Studio Apartment'') (Suc 0) = Inr [''bed'']"
  by (simp add: line_eval parse_loop.simps)

lemma lines_three:
  "split_lines (trim response_three_lines) = [''1. bed'', ''Studio Apartment'', ''no category here'']"
  by (simp add: response_three_lines_def trim_def is_space_def)

lemma cat_line1: "line_category ''1. bed'' = Some ''bed''"
  by (simp add: line_eval)

lemma cat_line2: "line_category ''Studio Apartment'' = Some ''studio apartment''"
  by (simp add: line_eval)


lemma parse_three:
  "parseAIResponse response_three_lines 2 = Inr [''bed'', ''studio apartment'']"
proof -
  have l1: "line_match ''1. bed'' = Some ''bed''" by (simp add: line_eval)
  have l2: "line_match ''Studio Apartment'' = Some ''Studio Apartment''" by (simp add: line_eval)
  have t1: "toLowerCase (trim ''bed'') = ''bed''" by (simp add: line_eval)
  have t2: "toLowerCase (trim ''Studio Apartment'') = ''studio apartment''" by (simp add: line_eval)
  have two: "(2::nat) = Suc (Suc 0)" by simp
  show ?thesis
    unfolding parseAIResponse_def lines_three two
    by (simp add: parse_loop.simps l1 l2 t1 t2 VALID_CATEGORIES_def)
qed

lemma cat_eval:
  "categorizeAllListings env0 (world_of [row_other, row_uncategorized])
   = Inr (1, 0, \<lparr> rows = [row_other, row_uncategorized\<lparr> ai_category_v1 := Some ''bed'' \<rparr>],
                   priceHistory = [],
                   trace = [FindManyUncategorized, UpdateCategory ''L2'' ''bed''],
                   console = [] \<rparr>)"
proof -
  have p: "parseAIResponse (''1. bed'' @ [CHR 0x0A] @ ''Studio Apartment'') (Suc 0) = Inr [''bed'']"
    by (rule parse_two)
  have f: "\<not> needs_category row_other" "needs_category row_uncategorized"
    by (simp_all add: needs_category_def row_other_def row_uncategorized_def blank_row_def)
  have ids: "row_id row_other = ''L1''" "row_id row_uncategorized = ''L2''"
    by (simp_all add: row_other_def row_uncategorized_def blank_row_def)
  have b: "processBatch env0 [row_uncategorized] = Inr [(''L2'', ''bed'')]"
    using p by (simp add: processBatch_def env0_simps ids)
  have s: "batch_step env0 [row_uncategorized]
             (0, 0, \<lparr> rows = [row_other, row_uncategorized], priceHistory = [],
                      trace = [FindManyUncategorized], console = [] \<rparr>)
           = (1, 0, \<lparr> rows = [row_other, row_uncategorized\<lparr> ai_category_v1 := Some ''bed'' \<rparr>],
                   priceHistory = [],
                   trace = [FindManyUncategorized, UpdateCategory ''L2'' ''bed''],
                   console = [] \<rparr>)"
    by (simp add: batch_step_def b env0_simps findUnique_def ids)
  show ?thesis
    by (simp add: categorizeAllListings_def env0_simps truthy_def world_of_def f Let_def
        categorize_loop.simps batchSize_const_def s)
qed

lemma parse_two_lines:
  "parseAIResponse (''1. bed'' @ [CHR 0x0A] @ ''Studio Apartment'')
     (length [row_uncategorized, row_other]) = Inr [''bed'', ''studio apartment'']"
proof -
  have l: "split_lines (trim (''1. bed'' @ [CHR 0x0A] @ ''Studio Apartment''))
           = [''1. bed'', ''Studio Apartment'']"
    by (simp add: trim_def is_space_def)
  have l1: "line_match ''1. bed'' = Some ''bed''" by (simp add: line_eval)
  have l2: "line_match ''Studio Apartment'' = Some ''Studio Apartment''" by (simp add: line_eval)
  have t1: "toLowerCase (trim ''bed'') = ''bed''" by (simp add: line_eval)
  have t2: "toLowerCase (trim ''Studio Apartment'') = ''studio apartment''" by (simp add: line_eval)
  show ?thesis
    unfolding parseAIResponse_def l
    by (simp add: parse_loop.simps l1 l2 t1 t2 VALID_CATEGORIES_def)
qed

section \<open>The error of rounding to binary64\<close>

text \<open>A positive rational below \<open>2\<^sup>N\<close> is rounded to a binary64 value that is at most
  \<open>2\<^sup>N\<^sup>-\<^sup>5\<^sup>3\<close> away. For a whole number of cents below \<open>2\<^sup>4\<^sup>0\<close> the two roundings of the
  price, that of the amount and that of the product with 100, stay within a quarter of a
  cent, and \<^verbatim>\<open>Math.round\<close> gives the number of cents back.\<close>

lemma log2_num_le: "2 ^ log2_num m \<le> nat_of_num m"
  by (induction m) (simp_all add: nat_of_num.simps)

lemma log2_nat_le: "0 < n \<Longrightarrow> 2 ^ log2_nat n \<le> n"
  using log2_num_le [of "num_of_nat n"] by (simp add: log2_nat_def num_of_nat_inverse)

lemma log2_nat_less: assumes "0 < n" "n < 2 ^ N" shows "log2_nat n < N"
proof -
  from log2_nat_le [OF assms(1)] assms(2) have "(2::nat) ^ log2_nat n < 2 ^ N"
    by (rule le_less_trans)
  then show ?thesis by simp
qed

lemma floor_log2_le:
  assumes "0 < q" "q < 2 ^ N"
  shows "floor_log2 q \<le> int N"
proof (cases "1 \<le> q")
  case True
  then have pos: "0 < nat \<lfloor>q\<rfloor>" by linarith
  have "\<lfloor>q\<rfloor> < 2 ^ N" using assms(2) by (simp add: floor_less_iff)
  then have "nat \<lfloor>q\<rfloor> < 2 ^ N" using pos by (simp add: nat_less_iff)
  from log2_nat_less [OF pos this] True show ?thesis by (simp add: floor_log2_def)
next
  case False
  then show ?thesis by (simp add: floor_log2_def low_log2_def)
qed

lemma pow_int_pos: "0 < pow_int 2 i"
  by (simp add: pow_int_def)

lemma pow_int_mono: "i \<le> j \<Longrightarrow> pow_int 2 i \<le> pow_int 2 j"
proof -
  assume "i \<le> j"
  have e: "pow_int 2 i = 2 powi i" for i
    by (simp add: pow_int_def power_int_def inverse_eq_divide power_one_over)
  from \<open>i \<le> j\<close> show ?thesis unfolding e by (intro power_int_increasing) simp_all
qed

lemma round_half_even_near: "\<bar>of_int (round_half_even x) - x\<bar> \<le> 1 / 2"
  unfolding round_half_even_def nearest_even_def
  by (auto simp: abs_if) linarith+

lemma round_double_near:
  assumes "0 < q" "q < 2 ^ N" "N \<le> 1000"
  shows "\<exists>r. round_double q = Finite r \<and> \<bar>r - q\<bar> \<le> pow_int 2 (int N - 53)"
proof -
  define e where "e = max (floor_log2 \<bar>q\<bar>) (- 1022)"
  define u where "u = pow_int 2 (e - 52)"
  define m where "m = round_half_even (\<bar>q\<bar> / u)"
  define r where "r = of_int m * u"
  from assms(1,2) have "floor_log2 \<bar>q\<bar> \<le> int N" by (simp add: floor_log2_le)
  then have eN: "e \<le> int N" by (simp add: e_def)
  have u: "0 < u" by (simp add: u_def pow_int_pos)
  have two: "pow_int 2 (i + 1) = 2 * pow_int 2 i" for i
  proof -
    have e: "pow_int 2 i = 2 powi i" for i
      by (simp add: pow_int_def power_int_def inverse_eq_divide power_one_over)
    show ?thesis unfolding e by (simp add: power_int_add)
  qed
  have "u \<le> pow_int 2 (int N - 52)" unfolding u_def using eN by (intro pow_int_mono) simp
  also have "\<dots> = 2 * pow_int 2 (int N - 53)" using two [of "int N - 53"] by simp
  finally have ub: "u / 2 \<le> pow_int 2 (int N - 53)" by simp
  have "\<bar>of_int m - \<bar>q\<bar> / u\<bar> \<le> 1 / 2" unfolding m_def by (rule round_half_even_near)
  then have "\<bar>of_int m - \<bar>q\<bar> / u\<bar> * u \<le> (1 / 2) * u"
    using u by (intro mult_right_mono) simp_all
  moreover have "\<bar>of_int m - \<bar>q\<bar> / u\<bar> * u = \<bar>r - q\<bar>"
  proof -
    have "\<bar>of_int m - \<bar>q\<bar> / u\<bar> * u = \<bar>(of_int m - \<bar>q\<bar> / u) * u\<bar>"
      using u by (simp add: abs_mult)
    also have "(of_int m - \<bar>q\<bar> / u) * u = r - q"
      using u assms(1) by (simp add: r_def field_simps)
    finally show ?thesis .
  qed
  ultimately have near: "\<bar>r - q\<bar> \<le> pow_int 2 (int N - 53)" using ub by simp
  have "pow_int 2 (int N - 53) \<le> pow_int 2 (int N)" by (intro pow_int_mono) simp
  also have "\<dots> = 2 ^ N" by (simp add: pow_int_def)
  finally have "r < 2 ^ N + 2 ^ N" using near assms(2) by linarith
  also have "(2::rat) ^ N + 2 ^ N = 2 ^ Suc N" by simp
  also have "\<dots> \<le> 2 ^ 1024" using assms(3) by (intro power_increasing) simp_all
  finally have small: "\<not> pow_int 2 1024 \<le> r" by (simp add: pow_int_def)
  have "round_double q = Finite r"
    using assms(1) small
    by (simp add: round_double_def round_at_def pack_double_def r_def m_def u_def e_def)
  with near show ?thesis by blast
qed

lemma cents_exact:
  fixes k :: nat
  assumes "k < 2 ^ 40"
  shows "math_round (js_times (round_double (of_nat k / 100)) 100) = Finite (of_nat k)"
proof (cases "k = 0")
  case True
  have "\<lfloor>(1::rat) / 2\<rfloor> = 0" by (rule floor_unique) simp_all
  with True show ?thesis by (simp add: round_double_def js_times_def math_round_def)
next
  case False
  then have k1: "(1::rat) \<le> of_nat k" by simp
  define q :: rat where "q = of_nat k / 100"
  have q0: "0 < q" using False by (simp add: q_def)
  have "(of_nat k :: rat) < 2 ^ 40" using assms by (metis of_nat_less_iff of_nat_numeral of_nat_power)
  then have kb: "(of_nat k :: rat) < 1099511627776" by simp
  then have "q < 2 ^ 34" by (simp add: q_def)
  from round_double_near [OF q0 this]
  obtain a where a: "round_double q = Finite a" and an: "\<bar>a - q\<bar> \<le> pow_int 2 (int 34 - 53)"
    by auto
  from an have an': "\<bar>a - q\<bar> \<le> 1 / 524288" by (simp add: pow_int_def)
  have pk: "\<bar>a * 100 - of_nat k\<bar> \<le> 100 / 524288"
  proof -
    have "a * 100 - of_nat k = (a - q) * 100" by (simp add: q_def algebra_simps)
    moreover have "\<bar>(a - q) * 100\<bar> = \<bar>a - q\<bar> * \<bar>100\<bar>" by (rule abs_mult)
    ultimately have "\<bar>a * 100 - of_nat k\<bar> = \<bar>a - q\<bar> * 100" by (simp only: abs_numeral)
    with an' show ?thesis by simp
  qed
  have pl: "of_nat k - 1 / 4 < a * 100" and pu: "a * 100 < of_nat k + 1 / 4"
    using pk by linarith+
  have p0: "0 < a * 100" using pl k1 by linarith
  have "a * 100 < 2199023255552" using pu kb by linarith
  then have "a * 100 < 2 ^ 41" by simp
  from round_double_near [OF p0 this]
  obtain b where b: "round_double (a * 100) = Finite b"
    and bn: "\<bar>b - a * 100\<bar> \<le> pow_int 2 (int 41 - 53)"
    by auto
  from bn have bn': "\<bar>b - a * 100\<bar> \<le> 1 / 4096" by (simp add: pow_int_def)
  have "\<lfloor>b + 1 / 2\<rfloor> = int k"
  proof (rule floor_unique)
    have "a * 100 - 1 / 4 < b" and "b < a * 100 + 1 / 4" using bn' by linarith+
    with pl pu have "of_nat k \<le> b + 1 / 2" and "b + 1 / 2 < of_nat k + 1" by linarith+
    then show "of_int (int k) \<le> b + 1 / 2" and "b + 1 / 2 < of_int (int k) + 1"
      by simp_all
  qed
  with a b show ?thesis by (simp add: q_def js_times_def math_round_def)
qed

lemma digit_plain:
  "is_digit c \<Longrightarrow> \<not> is_space c \<and> c \<noteq> CHR ''-'' \<and> c \<noteq> CHR ''+'' \<and> c \<noteq> CHR ''I''"
  by (auto simp: is_digit_def is_space_def)

lemma parseFloat_two_decimals:
  assumes "ds \<noteq> []" "list_all is_digit ds" "is_digit d1" "is_digit d2"
  shows "parseFloat (ds @ ''.'' @ [d1, d2])
         = round_double (of_nat (digits_value (ds @ [d1, d2])) / 100)"
proof -
  define s where "s = ds @ ''.'' @ [d1, d2]"
  from assms(1) obtain c cs where ds: "ds = c # cs" by (cases ds) auto
  with assms(2) have c: "is_digit c" by simp
  have all: "\<forall>x \<in> set ds. is_digit x" using assms(2) by (simp add: list_all_iff)
  have dot: "\<not> is_digit CHR ''.''" by (simp add: is_digit_def)
  have tw: "takeWhile is_digit s = ds"
    using all dot by (simp add: s_def takeWhile_append2)
  have dw: "dropWhile is_digit s = ''.'' @ [d1, d2]"
    using all dot by (simp add: s_def dropWhile_append2)
  have fr: "fraction_digits (''.'' @ [d1, d2]) = [d1, d2]"
    using assms(3,4) by (simp add: fraction_digits_def)
  have af: "after_fraction (''.'' @ [d1, d2]) = []"
    using assms(3,4) by (simp add: after_fraction_def)
  have ul: "unsigned_literal s = Some (of_nat (digits_value (ds @ [d1, d2])) / 100)"
    unfolding unsigned_literal_def tw dw fr af using assms(1)
    by (simp add: exponent_part_def pow_int_def)
  have sp: "dropWhile is_space s = s"
    using digit_plain [OF c] by (simp add: s_def ds)
  have ss: "strip_sign s = s"
    using digit_plain [OF c] by (simp add: s_def ds strip_sign_def)
  have ng: "is_negative s = False"
    using digit_plain [OF c] by (simp add: s_def ds is_negative_def)
  have inf: "prefix ''Infinity'' s = False"
    using digit_plain [OF c] by (auto simp: s_def ds)
  have "parseFloat s = round_double (of_nat (digits_value (ds @ [d1, d2])) / 100)"
    by (simp add: parseFloat_def sp parse_signed_def ss ng inf ul)
  then show ?thesis by (simp only: s_def)
qed

section \<open>Properties of the extraction\<close>

lemma includes_str_Nil: "includes_str t []"
  by (induction t) simp_all


lemma scan_subtitles_find:
  "scan_subtitles subs c st =
     (case find (\<lambda>t. t \<noteq> [] \<and> \<not> includes_str t c \<and> \<not> includes_str t st)
             (subtitle_strings subs) of
        None \<Rightarrow> []
      | Some t \<Rightarrow> t)"
  by (induction subs) (auto simp: subtitle_strings_def split: option.splits)

lemma scan_subtitles_empty_key:
  "c = [] \<or> st = [] \<Longrightarrow> scan_subtitles subs c st = []"
  by (induction subs) (auto simp: includes_str_Nil split: option.splits)



lemma determineListingCategory_refines:
  "determineListingCategory descr beds = spec_categorize descr beds"
  by (cases descr)
     (simp_all add: determineListingCategory_def spec_categorize_def first_match_def
        spec_rules_def contains_any_def truthy_def or_else_def Let_def)

lemma scenario_studio:
  "determineListingCategory (Some ''Cozy studio apartment downtown'') None = ''studio apartment''"
  by (simp add: determineListingCategory_def str_eval)

lemma scenario_shared_room:
  "determineListingCategory (Some ''Shared room in house, $500/mo'') None = ''bed''"
  by (simp add: determineListingCategory_def str_eval)

lemma scenario_two_bedroom:
  "determineListingCategory (Some ''Spacious 2 bedroom with parking'') (Some 2) = ''2bdr apartment''"
  by (simp add: determineListingCategory_def str_eval show_nat.simps digit_char_def)

lemma scenario_airbnb:
  "determineListingCategory (Some ''Available for Airbnb, nightly rate'') None = ''airbnb''"
  by (simp add: determineListingCategory_def str_eval)

lemma scenario_empty:
  "determineListingCategory (Some []) None = ''unknown''"
  by (simp add: determineListingCategory_def str_eval)

text \<open>
  Claim C5. For every description and optional bedroom count the keyword categorizer gives
  the category of the first rule that fires in the order of the specification: no
  description gives \<^verbatim>\<open>unknown\<close>; then the short-term words give \<^verbatim>\<open>airbnb\<close>, \<^verbatim>\<open>studio\<close> gives
  \<^verbatim>\<open>studio apartment\<close>, the shared-unit words give \<^verbatim>\<open>bedroom\<close>, the shared-sleeping words
  give \<^verbatim>\<open>bed\<close>, a known (present and non-zero) bedroom count \<open>N\<close> gives \<^verbatim>\<open>Nbdr apartment\<close>, the
  literal bedroom phrases give their category, and otherwise \<^verbatim>\<open>unknown\<close>. The five
  scenarios of the specification come out as it says.
\<close>

theorem categorizer_priority_order:
  "determineListingCategory descr beds = spec_categorize descr beds
   \<and> determineListingCategory (Some ''Cozy studio apartment downtown'') None = ''studio apartment''
   \<and> determineListingCategory (Some ''Shared room in house, $500/mo'') None = ''bed''
   \<and> determineListingCategory (Some ''Spacious 2 bedroom with parking'') (Some 2)
       = ''2bdr apartment''
   \<and> determineListingCategory (Some ''Available for Airbnb, nightly rate'') None = ''airbnb''
   \<and> determineListingCategory (Some []) None = ''unknown''
   \<and> determineListingCategory None None = ''unknown''"
  by (simp add: determineListingCategory_refines [symmetric] scenario_studio
      scenario_shared_room scenario_two_bedroom scenario_airbnb scenario_empty)
     (simp add: determineListingCategory_def truthy_def)

text \<open>
  Claim C6, as amended. For every raw document the price in cents is \<open>0\<close> when the amount is
  missing, empty or not read as a number by \<^verbatim>\<open>parseFloat\<close>; no amount makes the extraction of
  the price fail. Otherwise it is \<^verbatim>\<open>Math.round\<close> of the binary64 product of the binary64
  amount and 100: when that product is a finite number \<open>b\<close>, the price is the integer \<open>n\<close>
  with \<open>n - 1/2 \<le> b < n + 1/2\<close>. For an amount written as digits, a point and two digits,
  below \<open>2\<^sup>4\<^sup>0\<close> cents, the price in cents is exactly the number that the digits spell without
  the point. The amount \<^verbatim>\<open>1234.5\<close> gives 123450 cents, and the price text written for 123450
  cents is \<^verbatim>\<open>1234.50\<close>.
\<close>

theorem price_in_cents_rounding:
  "priceInCents_of item =
     (case listing_price_amount item of
        None \<Rightarrow> Finite 0
      | Some amount \<Rightarrow>
          if amount = [] \<or> parseFloat amount = NaN then Finite 0
          else math_round (js_times (parseFloat amount) 100))
   \<and> (listing_price_amount item = Some amount \<and> amount \<noteq> []
        \<and> js_times (parseFloat amount) 100 = Finite b
      \<longrightarrow> (\<exists>n::int. priceInCents_of item = Finite (of_int n)
             \<and> of_int n - 1 / 2 \<le> b \<and> b < of_int n + 1 / 2))
   \<and> (listing_price_amount item = Some (ds @ ''.'' @ [d1, d2])
        \<and> ds \<noteq> [] \<and> list_all is_digit ds \<and> is_digit d1 \<and> is_digit d2
        \<and> digits_value (ds @ [d1, d2]) < 2 ^ 40
      \<longrightarrow> priceInCents_of item = Finite (of_nat (digits_value (ds @ [d1, d2]))))
   \<and> priceInCents_of (item\<lparr> listing_price_amount := Some ''1234.5'' \<rparr>) = Finite 123450
   \<and> toFixed2 nts (js_over (Finite 123450) 100) = ''1234.50''
   \<and> price_of nts (item\<lparr> listing_price_amount := Some ''1234.5'' \<rparr>) = ''1234.50''"
proof -
  have general: "priceInCents_of item =
     (case listing_price_amount item of
        None \<Rightarrow> Finite 0
      | Some amount \<Rightarrow>
          if amount = [] \<or> parseFloat amount = NaN then Finite 0
          else math_round (js_times (parseFloat amount) 100))"
    by (simp add: priceInCents_of_def isNaN_def split: option.splits)
  have nearest: "\<exists>n::int. priceInCents_of item = Finite (of_int n)
             \<and> of_int n - 1 / 2 \<le> b \<and> b < of_int n + 1 / 2"
    if a: "listing_price_amount item = Some amount" "amount \<noteq> []"
      and b: "js_times (parseFloat amount) 100 = Finite b"
  proof -
    from b have "parseFloat amount \<noteq> NaN" by (auto simp: js_times_def)
    with a b have "priceInCents_of item = Finite (of_int \<lfloor>b + 1 / 2\<rfloor>)"
      by (simp add: general math_round_def)
    moreover have "of_int \<lfloor>b + 1 / 2\<rfloor> - 1 / 2 \<le> b" "b < of_int \<lfloor>b + 1 / 2\<rfloor> + 1 / 2"
      by linarith+
    ultimately show ?thesis by blast
  qed
  have exact: "priceInCents_of item = Finite (of_nat (digits_value (ds @ [d1, d2])))"
    if a: "listing_price_amount item = Some (ds @ ''.'' @ [d1, d2])"
      and d: "ds \<noteq> []" "list_all is_digit ds" "is_digit d1" "is_digit d2"
      and k: "digits_value (ds @ [d1, d2]) < 2 ^ 40"
  proof -
    define amount where "amount = ds @ ''.'' @ [d1, d2]"
    define k where "k = digits_value (ds @ [d1, d2])"
    have p: "parseFloat amount = round_double (of_nat k / 100)"
      unfolding amount_def k_def using d by (rule parseFloat_two_decimals)
    from cents_exact [of k] k
    have c: "math_round (js_times (parseFloat amount) 100) = Finite (of_nat k)"
      by (simp add: p k_def)
    then have "parseFloat amount \<noteq> NaN" by (auto simp: js_times_def math_round_def)
    moreover have "amount \<noteq> []" by (simp add: amount_def)
    moreover from a have "listing_price_amount item = Some amount" by (simp only: amount_def)
    ultimately have "priceInCents_of item = Finite (of_nat k)"
      using c by (simp add: general)
    then show ?thesis by (simp only: k_def)
  qed
  have example: "priceInCents_of (item\<lparr> listing_price_amount := Some ''1234.5'' \<rparr>)
                   = Finite 123450
   \<and> toFixed2 nts (js_over (Finite 123450) 100) = ''1234.50''
   \<and> price_of nts (item\<lparr> listing_price_amount := Some ''1234.5'' \<rparr>) = ''1234.50''"
    by (simp add: cents_of_1234_5 price_text_1234_5 price_of_def)
  from nearest have n: "listing_price_amount item = Some amount \<and> amount \<noteq> []
        \<and> js_times (parseFloat amount) 100 = Finite b
      \<longrightarrow> (\<exists>n::int. priceInCents_of item = Finite (of_int n)
             \<and> of_int n - 1 / 2 \<le> b \<and> b < of_int n + 1 / 2)"
    by blast
  from exact have e: "listing_price_amount item = Some (ds @ ''.'' @ [d1, d2])
        \<and> ds \<noteq> [] \<and> list_all is_digit ds \<and> is_digit d1 \<and> is_digit d2
        \<and> digits_value (ds @ [d1, d2]) < 2 ^ 40
      \<longrightarrow> priceInCents_of item = Finite (of_nat (digits_value (ds @ [d1, d2])))"
    by blast
  show ?thesis
    by (rule conjI [OF general conjI [OF n conjI [OF e example]]])
qed

text \<open>The amount \<^verbatim>\<open>19.99\<close>: its binary64 product with 100 lies just below 1999, and the price
  is 1999 cents.\<close>

theorem price_in_cents_rounding_witness:
  "listing_price_amount (item_priced ''19.99'') = Some ''19.99''
   \<and> js_times (parseFloat ''19.99'') 100 = Finite (8791694975696895 / 4398046511104)
   \<and> (1999 :: rat) - 1 / 2 \<le> 8791694975696895 / 4398046511104
   \<and> (8791694975696895 / 4398046511104 :: rat) < 1999 + 1 / 2
   \<and> digits_value ''1999'' = 1999
   \<and> priceInCents_of (item_priced ''19.99'') = Finite 1999"
proof -
  have a: "listing_price_amount (item_priced ''19.99'') = Some ''19.99''"
    by (simp add: item_priced_def empty_item_def)
  have b: "js_times (parseFloat ''19.99'') 100 = Finite (8791694975696895 / 4398046511104)"
    by (simp add: parse_eval js_times_def round_eval)
  have k: "digits_value ''1999'' = 1999"
    by (simp add: digits_value_def digit_val_def)
  have d: "list_all is_digit ''19''" "is_digit CHR ''9''"
    by (simp_all add: is_digit_def)
  note inst = price_in_cents_rounding
    [of "item_priced ''19.99''" "''19.99''" "8791694975696895 / 4398046511104"
        "''19''" "CHR ''9''" "CHR ''9''"]
  from inst [THEN conjunct2, THEN conjunct2, THEN conjunct1] a k d
  have "priceInCents_of (item_priced ''19.99'') = Finite 1999"
    by simp
  with a b k show ?thesis by simp
qed

text \<open>
  Claim C6 as stated fails where the amount has more than two decimals: the product is
  that of binary64 numbers and not of the decimal amount. The amount \<^verbatim>\<open>1.255\<close> denotes
  \<open>251/200\<close>, whose product with 100 is \<open>125.5\<close> and rounds to 126, but the price is 125 cents;
  the amount \<^verbatim>\<open>1.005\<close> denotes \<open>201/200\<close>, whose product with 100 is \<open>100.5\<close> and rounds to 101,
  but the price is 100 cents.
\<close>

theorem binary_product_is_not_decimal:
  "unsigned_literal ''1.255'' = Some (251 / 200)
   \<and> \<lfloor>(251 / 200 :: rat) * 100 + 1 / 2\<rfloor> = 126
   \<and> priceInCents_of (item_priced ''1.255'') = Finite 125
   \<and> unsigned_literal ''1.005'' = Some (201 / 200)
   \<and> \<lfloor>(201 / 200 :: rat) * 100 + 1 / 2\<rfloor> = 101
   \<and> priceInCents_of (item_priced ''1.005'') = Finite 100"
proof -
  have "unsigned_literal ''1.255'' = Some (251 / 200)"
    "unsigned_literal ''1.005'' = Some (201 / 200)"
    by (simp_all add: parse_eval pow_int_def)
  moreover have "\<lfloor>(251 / 200 :: rat) * 100 + 1 / 2\<rfloor> = 126"
    "\<lfloor>(201 / 200 :: rat) * 100 + 1 / 2\<rfloor> = 101"
    by simp_all
  moreover have "priceInCents_of (item_priced ''1.255'') = Finite 125"
    using cents_of_1_255 [of empty_item] by (simp add: item_priced_def)
  moreover have "priceInCents_of (item_priced ''1.005'') = Finite 100"
    by (simp add: item_priced_def priceInCents_of_def isNaN_def parse_eval math_round_def
        js_times_def round_eval)
  ultimately show ?thesis by simp
qed




text \<open>
  Claim C9, as amended. For every raw document with no structured street field and a list
  of subtitles, the street address is the first non-empty subtitle that contains neither
  the resolved city nor the resolved state, and the empty string when there is none; when
  the resolved city or state is the empty string, every subtitle contains it and the
  street address is empty.
\<close>

theorem street_address_first_nonempty_subtitle:
  assumes "\<not> truthy (home_address_street item)" and "custom_sub_titles item = Some subs"
  shows "streetAddress_of item =
           (case find (\<lambda>t. t \<noteq> [] \<and> \<not> includes_str t (city_of item)
                            \<and> \<not> includes_str t (state_of item))
                   (subtitle_strings subs) of
              None \<Rightarrow> []
            | Some t \<Rightarrow> t)
         \<and> (city_of item = [] \<or> state_of item = [] \<longrightarrow> streetAddress_of item = [])"
  using assms
  by (simp add: streetAddress_of_def scan_subtitles_find [symmetric] scan_subtitles_empty_key)

theorem street_address_first_nonempty_subtitle_witness:
  "\<not> truthy (home_address_street item_c9)
   \<and> custom_sub_titles item_c9 = Some [Some [], Some ''123 Main St'']
   \<and> streetAddress_of item_c9 = ''123 Main St''"
  using street_address_first_nonempty_subtitle [of item_c9 "[Some [], Some ''123 Main St'']"]
  by (simp add: item_c9_def empty_item_def truthy_def city_of_def state_of_def or_else_def
      subtitle_strings_def)

text \<open>Claim C9 as stated fails: the first subtitle that contains neither the city nor the
  state is the empty one, which would leave the street address empty; the import passes
  over it and takes the next.\<close>

theorem street_address_skips_empty_subtitle:
  "streetAddress_of item_c9 = ''123 Main St''
   \<and> claimed_street [Some [], Some ''123 Main St''] (city_of item_c9) (state_of item_c9) = []"
  by (simp add: item_c9_def empty_item_def streetAddress_of_def city_of_def state_of_def
      claimed_street_def subtitle_strings_def truthy_def or_else_def)

section \<open>Properties of the import\<close>

lemma process_item_priceHistory:
  "priceHistory (snd (process_item e sw item)) = priceHistory (snd sw)"
  by (simp add: process_item_def Let_def split: option.splits)

lemma importListings_priceHistory:
  "priceHistory (snd (importListings e w parsed)) = priceHistory w"
proof (cases parsed)
  case None
  then show ?thesis by (simp add: importListings_def)
next
  case (Some listings)
  have "priceHistory (snd (import_loop e sw listings)) = priceHistory (snd sw)" for sw
    by (induction e sw listings rule: import_loop.induct)
      (simp_all add: process_item_priceHistory)
  with Some show ?thesis by (simp add: importListings_def)
qed

text \<open>
  Claim C1 (the import against its documentation). A listing stored with the price
  \<^verbatim>\<open>1200.00\<close> is imported again with the amount \<^verbatim>\<open>1250\<close>: the row gets the price \<^verbatim>\<open>1250.00\<close>
  and the change is written to the console, but the price history stays empty. No turn of
  the import writes the history table (\<open>importListings_priceHistory\<close>).
\<close>

theorem price_change_appends_no_history:
  "process_item env0 (zero_stats, world_of [blank_row ''L1'' ''1200.00''])
     (empty_item\<lparr> item_id := Some ''L1'', listing_price_amount := Some ''1250'' \<rparr>)
   = (zero_stats\<lparr> totalProcessed := 1, updatedListings := 1 \<rparr>,
      \<lparr> rows = [(blank_row ''L1'' ''1250.00'')\<lparr> ai_category_v1 := Some ''unknown'' \<rparr>],
        priceHistory = [],
        trace = [FindUnique ''L1'',
                 Update ''L1'' (build_dbData env0 ''L1''
                    (empty_item\<lparr> item_id := Some ''L1'',
                                 listing_price_amount := Some ''1250'' \<rparr>))],
        console = [PriceChange ''L1'' ''1200.00'' ''1250.00''] \<rparr>)"
  by (simp add: process_item_def Let_def env0_def world_of_def blank_row_def findUnique_def
      extract_defs price_of_1250 reparse_1250 apply_update_def opt_write_def zero_stats_def
      determineListingCategory_def truthy_def or_else_def truthy_count_def empty_item_def)




lemma process_item_update:
  assumes "type_error item = None" and "truthy (item_id item)"
    and "findUnique (or_else (item_id item) []) (rows w) = Some existing"
    and "\<not> db_fails e (trace w) (FindUnique (or_else (item_id item) []))"
    and "\<not> db_fails e (trace w @ [FindUnique (or_else (item_id item) [])])
           (Update (or_else (item_id item) [])
              (build_dbData e (or_else (item_id item) []) item))"
  shows "rows (snd (process_item e (st, w) item)) =
           map (\<lambda>r. if row_id r = or_else (item_id item) []
                     then apply_update (build_dbData e (or_else (item_id item) []) item) r
                     else r) (rows w)"
  using assms by (simp add: process_item_def Let_def)

lemma apply_update_build:
  "row_id r = lid \<Longrightarrow>
   apply_update (build_dbData e lid item) r =
     r\<lparr> price := price_of (number_toString e) item,
        listingTitle := (if listingTitle_of item = [] then listingTitle r
                         else Some (listingTitle_of item)),
        city := (if city_of item = [] then city r else Some (city_of item)),
        state := (if state_of item = [] then state r else Some (state_of item)),
        postalCode := (if postalCode_of item = [] then postalCode r
                       else Some (postalCode_of item)),
        streetAddress := (if streetAddress_of item = [] then streetAddress r
                          else Some (streetAddress_of item)),
        description := (if description_of item = [] then description r
                        else Some (description_of item)),
        latitude := (case latitude_of item of None \<Rightarrow> latitude r
                     | Some q \<Rightarrow> Some (number_toString e q)),
        longitude := (case longitude_of item of None \<Rightarrow> longitude r
                      | Some q \<Rightarrow> Some (number_toString e q)),
        bedrooms := (if truthy_count (bedrooms_of item) then bedrooms_of item else bedrooms r),
        bathrooms := (if truthy_count (bathrooms_of item) then bathrooms_of item
                      else bathrooms r),
        amenities := (if amenities_of item = [] then amenities r else amenities_of item),
        petFriendly := Some (petFriendly_of item),
        availableDate := (case availableDate_of item of None \<Rightarrow> availableDate r
                          | Some d \<Rightarrow> Some d),
        imageUrl := (if imageUrl_of item = [] then imageUrl r else Some (imageUrl_of item)),
        listedDate := (if truthy (creation_time item)
                       then DateOf (or_else (creation_time item) []) else listedDate r),
        ai_category_v1 :=
          Some (determineListingCategory (present (description_of item)) (bedrooms_of item)) \<rparr>"
  by (simp add: apply_update_def build_dbData_def opt_write_def present_def truthy_count_def
      split: option.splits)

lemma apply_update_category:
  "row_id (apply_update (build_dbData e lid item) r) = lid"
  "ai_category_v1 (apply_update (build_dbData e lid item) r)
     = Some (determineListingCategory (present (description_of item)) (bedrooms_of item))"
  by (simp_all add: apply_update_def build_dbData_def opt_write_def)

lemma halifax_rows:
  "rows (snd (process_item env0 (zero_stats, world_of [row_halifax]) item_bedrooms3))
   = [row_halifax\<lparr> price := ''0.00'', bedrooms := Some 3, petFriendly := Some False,
                   ai_category_v1 := Some ''unknown'' \<rparr>]"
  by (simp add: process_item_def Let_def env0_def world_of_def row_halifax_def blank_row_def
      findUnique_def item_bedrooms3_def extract_defs price_of_missing reparse_0 apply_update_def
      opt_write_def zero_stats_def determineListingCategory_def truthy_def or_else_def
      truthy_count_def empty_item_def)

text \<open>
  Claim C4, as amended. For every update of an existing listing (the turn throws no type error, the
  document has an identifier, a row with it exists and neither call to the gateway fails),
  the rows with that identifier are merged field by field and every other row is left as it
  is. For the title, city, state, postal code, street address, description, coordinates,
  room counts, amenities, available date, image and listed date, a field of the candidate
  that is empty, absent or zero leaves the persisted value untouched, and a field that is
  present is written. The price, the pet flag and the category are not merged: they are
  written on every update, whatever the document holds. The row with city \<^verbatim>\<open>Halifax\<close> and 2
  bedrooms, updated by a candidate with an empty city and 3 bedrooms, keeps \<^verbatim>\<open>Halifax\<close> and
  gets 3 bedrooms.
\<close>

theorem sparse_merge_update:
  assumes "type_error item = None" and "truthy (item_id item)"
    and "findUnique (or_else (item_id item) []) (rows w) = Some existing"
    and "\<not> db_fails e (trace w) (FindUnique (or_else (item_id item) []))"
    and "\<not> db_fails e (trace w @ [FindUnique (or_else (item_id item) [])])
           (Update (or_else (item_id item) [])
              (build_dbData e (or_else (item_id item) []) item))"
  shows "rows (snd (process_item e (st, w) item)) =
           map (\<lambda>r. if row_id r = or_else (item_id item) [] then
                r\<lparr> price := price_of (number_toString e) item,
                   listingTitle := (if listingTitle_of item = [] then listingTitle r
                                    else Some (listingTitle_of item)),
                   city := (if city_of item = [] then city r else Some (city_of item)),
                   state := (if state_of item = [] then state r else Some (state_of item)),
                   postalCode := (if postalCode_of item = [] then postalCode r
                                  else Some (postalCode_of item)),
                   streetAddress := (if streetAddress_of item = [] then streetAddress r
                                     else Some (streetAddress_of item)),
                   description := (if description_of item = [] then description r
                                   else Some (description_of item)),
                   latitude := (case latitude_of item of None \<Rightarrow> latitude r
                                | Some q \<Rightarrow> Some (number_toString e q)),
                   longitude := (case longitude_of item of None \<Rightarrow> longitude r
                                 | Some q \<Rightarrow> Some (number_toString e q)),
                   bedrooms := (if truthy_count (bedrooms_of item) then bedrooms_of item
                                else bedrooms r),
                   bathrooms := (if truthy_count (bathrooms_of item) then bathrooms_of item
                                 else bathrooms r),
                   amenities := (if amenities_of item = [] then amenities r
                                 else amenities_of item),
                   petFriendly := Some (petFriendly_of item),
                   availableDate := (case availableDate_of item of None \<Rightarrow> availableDate r
                                     | Some d \<Rightarrow> Some d),
                   imageUrl := (if imageUrl_of item = [] then imageUrl r
                                else Some (imageUrl_of item)),
                   listedDate := (if truthy (creation_time item)
                                  then DateOf (or_else (creation_time item) [])
                                  else listedDate r),
                   ai_category_v1 :=
                     Some (determineListingCategory (present (description_of item))
                             (bedrooms_of item)) \<rparr>
              else r) (rows w)
         \<and> city_of item_bedrooms3 = [] \<and> bedrooms_of item_bedrooms3 = Some 3
         \<and> city row_halifax = Some ''Halifax'' \<and> bedrooms row_halifax = Some 2
         \<and> map (\<lambda>r. (city r, bedrooms r))
               (rows (snd (process_item env0 (zero_stats, world_of [row_halifax]) item_bedrooms3)))
             = [(Some ''Halifax'', Some 3)]"
proof -
  have ex: "city_of item_bedrooms3 = [] \<and> bedrooms_of item_bedrooms3 = Some 3
         \<and> city row_halifax = Some ''Halifax'' \<and> bedrooms row_halifax = Some 2"
    by (simp add: item_bedrooms3_def empty_item_def row_halifax_def blank_row_def extract_defs
        truthy_def or_else_def truthy_count_def)
  have ex2: "map (\<lambda>r. (city r, bedrooms r))
               (rows (snd (process_item env0 (zero_stats, world_of [row_halifax]) item_bedrooms3)))
             = [(Some ''Halifax'', Some 3)]"
    by (simp add: halifax_rows) (simp add: row_halifax_def)
  have "map (\<lambda>r. if row_id r = or_else (item_id item) []
                     then apply_update (build_dbData e (or_else (item_id item) []) item) r
                     else r) (rows w)
        = map (\<lambda>r. if row_id r = or_else (item_id item) [] then
                r\<lparr> price := price_of (number_toString e) item,
                   listingTitle := (if listingTitle_of item = [] then listingTitle r
                                    else Some (listingTitle_of item)),
                   city := (if city_of item = [] then city r else Some (city_of item)),
                   state := (if state_of item = [] then state r else Some (state_of item)),
                   postalCode := (if postalCode_of item = [] then postalCode r
                                  else Some (postalCode_of item)),
                   streetAddress := (if streetAddress_of item = [] then streetAddress r
                                     else Some (streetAddress_of item)),
                   description := (if description_of item = [] then description r
                                   else Some (description_of item)),
                   latitude := (case latitude_of item of None \<Rightarrow> latitude r
                                | Some q \<Rightarrow> Some (number_toString e q)),
                   longitude := (case longitude_of item of None \<Rightarrow> longitude r
                                 | Some q \<Rightarrow> Some (number_toString e q)),
                   bedrooms := (if truthy_count (bedrooms_of item) then bedrooms_of item
                                else bedrooms r),
                   bathrooms := (if truthy_count (bathrooms_of item) then bathrooms_of item
                                 else bathrooms r),
                   amenities := (if amenities_of item = [] then amenities r
                                 else amenities_of item),
                   petFriendly := Some (petFriendly_of item),
                   availableDate := (case availableDate_of item of None \<Rightarrow> availableDate r
                                     | Some d \<Rightarrow> Some d),
                   imageUrl := (if imageUrl_of item = [] then imageUrl r
                                else Some (imageUrl_of item)),
                   listedDate := (if truthy (creation_time item)
                                  then DateOf (or_else (creation_time item) [])
                                  else listedDate r),
                   ai_category_v1 :=
                     Some (determineListingCategory (present (description_of item))
                             (bedrooms_of item)) \<rparr>
              else r) (rows w)"
    by (rule map_cong [OF refl]) (simp add: apply_update_build cong: if_cong)
  with process_item_update [OF assms, of st] ex ex2 show ?thesis
    by (simp only: simp_thms)
qed

theorem sparse_merge_update_witness:
  "type_error item_bedrooms3 = None \<and> truthy (item_id item_bedrooms3)
   \<and> findUnique (or_else (item_id item_bedrooms3) []) (rows (world_of [row_halifax]))
       = Some row_halifax
   \<and> row_halifax = (blank_row ''L1'' ''1200.00'')
         \<lparr> city := Some ''Halifax'', bedrooms := Some 2, petFriendly := Some True,
           ai_category_v1 := Some ''2bdr apartment'' \<rparr>
   \<and> rows (snd (process_item env0 (zero_stats, world_of [row_halifax]) item_bedrooms3))
       = [(blank_row ''L1'' ''0.00'')
            \<lparr> city := Some ''Halifax'', bedrooms := Some 3, petFriendly := Some False,
              ai_category_v1 := Some ''unknown'' \<rparr>]"
proof -
  have id: "or_else (item_id item_bedrooms3) [] = ''L1''" "truthy (item_id item_bedrooms3)"
    "type_error item_bedrooms3 = None"
    by (simp_all add: item_bedrooms3_def empty_item_def or_else_def truthy_def)
  have found: "findUnique (or_else (item_id item_bedrooms3) []) (rows (world_of [row_halifax]))
       = Some row_halifax"
    by (simp add: id findUnique_def world_of_def row_halifax_def blank_row_def)
  have ok: "\<not> db_fails env0 tr op" for tr op
    by (simp add: env0_def)
  from sparse_merge_update [OF id(3) id(2) found ok ok, of zero_stats]
  have "rows (snd (process_item env0 (zero_stats, world_of [row_halifax]) item_bedrooms3))
        = map (\<lambda>r. if row_id r = ''L1'' then
                r\<lparr> price := price_of (number_toString env0) item_bedrooms3,
                   listingTitle := (if listingTitle_of item_bedrooms3 = [] then listingTitle r
                                    else Some (listingTitle_of item_bedrooms3)),
                   city := (if city_of item_bedrooms3 = [] then city r
                            else Some (city_of item_bedrooms3)),
                   state := (if state_of item_bedrooms3 = [] then state r
                             else Some (state_of item_bedrooms3)),
                   postalCode := (if postalCode_of item_bedrooms3 = [] then postalCode r
                                  else Some (postalCode_of item_bedrooms3)),
                   streetAddress := (if streetAddress_of item_bedrooms3 = [] then streetAddress r
                                     else Some (streetAddress_of item_bedrooms3)),
                   description := (if description_of item_bedrooms3 = [] then description r
                                   else Some (description_of item_bedrooms3)),
                   latitude := (case latitude_of item_bedrooms3 of None \<Rightarrow> latitude r
                                | Some q \<Rightarrow> Some (number_toString env0 q)),
                   longitude := (case longitude_of item_bedrooms3 of None \<Rightarrow> longitude r
                                 | Some q \<Rightarrow> Some (number_toString env0 q)),
                   bedrooms := (if truthy_count (bedrooms_of item_bedrooms3)
                                then bedrooms_of item_bedrooms3 else bedrooms r),
                   bathrooms := (if truthy_count (bathrooms_of item_bedrooms3)
                                 then bathrooms_of item_bedrooms3 else bathrooms r),
                   amenities := (if amenities_of item_bedrooms3 = [] then amenities r
                                 else amenities_of item_bedrooms3),
                   petFriendly := Some (petFriendly_of item_bedrooms3),
                   availableDate := (case availableDate_of item_bedrooms3 of
                                       None \<Rightarrow> availableDate r | Some d \<Rightarrow> Some d),
                   imageUrl := (if imageUrl_of item_bedrooms3 = [] then imageUrl r
                                else Some (imageUrl_of item_bedrooms3)),
                   listedDate := (if truthy (creation_time item_bedrooms3)
                                  then DateOf (or_else (creation_time item_bedrooms3) [])
                                  else listedDate r),
                   ai_category_v1 :=
                     Some (determineListingCategory (present (description_of item_bedrooms3))
                             (bedrooms_of item_bedrooms3)) \<rparr>
              else r) (rows (world_of [row_halifax]))"
    by (simp only: id)
  also have "\<dots> = [(blank_row ''L1'' ''0.00'')
            \<lparr> city := Some ''Halifax'', bedrooms := Some 3, petFriendly := Some False,
              ai_category_v1 := Some ''unknown'' \<rparr>]"
    by (simp add: world_of_def row_halifax_def blank_row_def item_bedrooms3_def extract_defs
        price_of_missing determineListingCategory_def truthy_def or_else_def truthy_count_def
        empty_item_def env0_def)
  finally show ?thesis using id found by (simp add: row_halifax_def)
qed

text \<open>
  Claim C4 as stated fails: a field that is absent on the candidate does not always leave
  the persisted value untouched. The row stored with the price \<^verbatim>\<open>1200.00\<close>, the pet flag set and the category
  \<^verbatim>\<open>2bdr apartment\<close> is updated by a document that holds an identifier only: the price
  becomes \<^verbatim>\<open>0.00\<close>, the pet flag is cleared and the category becomes \<^verbatim>\<open>unknown\<close>, while the
  city and the bedrooms are kept.
\<close>

theorem absent_price_pet_category_overwrite:
  "listing_price_amount item_L1 = None \<and> pdp_display_sections item_L1 = None
   \<and> redacted_description_text item_L1 = None
   \<and> price row_halifax = ''1200.00'' \<and> petFriendly row_halifax = Some True
   \<and> ai_category_v1 row_halifax = Some ''2bdr apartment''
   \<and> rows (snd (process_item env0 (zero_stats, world_of [row_halifax]) item_L1))
       = [row_halifax\<lparr> price := ''0.00'', petFriendly := Some False,
                       ai_category_v1 := Some ''unknown'' \<rparr>]"
  by (simp add: process_item_def Let_def env0_def world_of_def row_halifax_def blank_row_def
      findUnique_def item_L1_def extract_defs price_of_missing reparse_0 apply_update_def
      opt_write_def zero_stats_def determineListingCategory_def truthy_def or_else_def
      truthy_count_def empty_item_def)


section \<open>Properties of the classifier client\<close>


lemma parse_loop_Inr:
  "parse_loop lines B i acc = Inr cats \<Longrightarrow>
     length cats = length acc + (B - i) \<and> take (length acc) cats = acc \<and>
     (\<forall>j. i \<le> j \<and> j < B \<longrightarrow> j < length lines \<and> lines ! j \<noteq> [] \<and>
          line_category (lines ! j) = Some (cats ! (length acc + (j - i))) \<and>
          cats ! (length acc + (j - i)) \<in> set VALID_CATEGORIES)"
proof (induction lines B i acc rule: parse_loop.induct)
  case (1 lines B i acc)
  show ?case
  proof (cases "i < B")
    case False
    with "1.prems" have "cats = acc" by (simp add: parse_loop.simps)
    with False show ?thesis by auto
  next
    case True
    from "1.prems" True have ok: "i < length lines" "lines ! i \<noteq> []"
      by (auto simp: parse_loop.simps [of lines B i acc] split: if_splits)
    from "1.prems" True ok obtain g where g: "line_match (lines ! i) = Some g"
      by (auto simp: parse_loop.simps [of lines B i acc] split: option.splits)
    let ?c = "toLowerCase (trim g)"
    from "1.prems" True ok g have valid: "?c \<in> set VALID_CATEGORIES"
      by (auto simp: parse_loop.simps [of lines B i acc] split: if_splits)
    from "1.prems" True ok g valid
    have rec: "parse_loop lines B (i + 1) (acc @ [?c]) = Inr cats"
      by (simp add: parse_loop.simps [of lines B i acc])
    have neg: "\<not> toLowerCase (trim g) \<notin> set VALID_CATEGORIES"
      using valid by simp
    from "1.IH" [OF True _ g neg rec] ok
    have IH: "length cats = length (acc @ [?c]) + (B - (i + 1))"
      "take (length (acc @ [?c])) cats = acc @ [?c]"
      "\<And>j. i + 1 \<le> j \<Longrightarrow> j < B \<Longrightarrow> j < length lines \<and> lines ! j \<noteq> [] \<and>
          line_category (lines ! j) = Some (cats ! (length (acc @ [?c]) + (j - (i + 1)))) \<and>
          cats ! (length (acc @ [?c]) + (j - (i + 1))) \<in> set VALID_CATEGORIES"
      by auto
    have len: "length cats = length acc + (B - i)"
      using IH(1) True by simp
    have tk: "take (Suc (length acc)) cats = acc @ [?c]"
      using IH(2) by simp
    have tk1: "take (length acc) cats = acc"
      using arg_cong [OF tk, of "take (length acc)"] by (simp add: min_def)
    have at: "cats ! length acc = ?c"
      using arg_cong [OF tk, of "\<lambda>xs. xs ! length acc"] len True by simp
    have pt: "j < length lines \<and> lines ! j \<noteq> [] \<and>
          line_category (lines ! j) = Some (cats ! (length acc + (j - i))) \<and>
          cats ! (length acc + (j - i)) \<in> set VALID_CATEGORIES" if "i \<le> j" "j < B" for j
    proof (cases "j = i")
      case True
      with ok g valid at show ?thesis by (simp add: line_category_def)
    next
      case False
      with that have "i + 1 \<le> j" by simp
      from IH(3) [OF this that(2)] that False show ?thesis
        by (simp add: Suc_diff_Suc)
    qed
    from len tk1 pt show ?thesis by blast
  qed
qed


lemma parse_loop_short:
  "i \<le> B \<Longrightarrow> length lines < B \<Longrightarrow> i \<le> length lines \<Longrightarrow> \<exists>err. parse_loop lines B i acc = Inl err"
proof (induction lines B i acc rule: parse_loop.induct)
  case (1 lines B i acc)
  from "1.prems" have lt: "i < B" by simp
  show ?case
  proof (cases "i < length lines \<and> lines ! i \<noteq> []")
    case False
    with lt show ?thesis by (auto simp: parse_loop.simps [of lines B i acc])
  next
    case True
    show ?thesis
    proof (cases "line_match (lines ! i)")
      case None
      with lt True show ?thesis by (auto simp: parse_loop.simps [of lines B i acc])
    next
      case (Some g)
      show ?thesis
      proof (cases "toLowerCase (trim g) \<in> set VALID_CATEGORIES")
        case False
        with lt True Some show ?thesis by (auto simp: parse_loop.simps [of lines B i acc])
      next
        case v: True
        have neg: "\<not> toLowerCase (trim g) \<notin> set VALID_CATEGORIES" using v by simp
        from "1.IH" [OF lt True Some neg] "1.prems" True
        have "\<exists>err. parse_loop lines B (i + 1) (acc @ [toLowerCase (trim g)]) = Inl err"
          by simp
        with lt True Some v show ?thesis by (auto simp: parse_loop.simps [of lines B i acc])
      qed
    qed
  qed
qed

lemma parse_loop_error_kind:
  "parse_loop lines B i acc = Inl err \<Longrightarrow>
     (\<exists>n. err = MissingResponse n B (length lines)) \<or> (\<exists>n. err = InvalidFormat n)
     \<or> (\<exists>n c. err = InvalidCategory n c \<and> c \<notin> set VALID_CATEGORIES)"
proof (induction lines B i acc rule: parse_loop.induct)
  case (1 lines B i acc)
  show ?case
  proof (cases "i < B \<and> (i < length lines \<and> lines ! i \<noteq> [])")
    case False
    with "1.prems" show ?thesis
      by (auto simp: parse_loop.simps [of lines B i acc] split: if_splits)
  next
    case True
    show ?thesis
    proof (cases "line_match (lines ! i)")
      case None
      with True "1.prems" show ?thesis by (auto simp: parse_loop.simps [of lines B i acc])
    next
      case (Some g)
      show ?thesis
      proof (cases "toLowerCase (trim g) \<in> set VALID_CATEGORIES")
        case False
        with True Some "1.prems" show ?thesis
          by (auto simp: parse_loop.simps [of lines B i acc])
      next
        case v: True
        have neg: "\<not> toLowerCase (trim g) \<notin> set VALID_CATEGORIES" using v by simp
        from True Some v "1.prems"
        have "parse_loop lines B (i + 1) (acc @ [toLowerCase (trim g)]) = Inl err"
          by (simp add: parse_loop.simps [of lines B i acc])
        from "1.IH" [OF _ _ Some neg this] True show ?thesis by simp
      qed
    qed
  qed
qed

lemma parseAIResponse_Inr:
  "parseAIResponse response B = Inr cats \<Longrightarrow>
     length cats = B \<and>
     (\<forall>j<B. j < length (split_lines (trim response)) \<and> split_lines (trim response) ! j \<noteq> [] \<and>
            line_category (split_lines (trim response) ! j) = Some (cats ! j) \<and>
            cats ! j \<in> set VALID_CATEGORIES)"
proof -
  assume a: "parseAIResponse response B = Inr cats"
  then have "parse_loop (split_lines (trim response)) B 0 [] = Inr cats"
    by (auto simp: parseAIResponse_def split: sum.splits if_splits)
  from parse_loop_Inr [OF this] show ?thesis by simp
qed

lemma parseAIResponse_Inl:
  "parseAIResponse response B = Inl err \<Longrightarrow>
     (\<exists>n. err = MissingResponse n B (length (split_lines (trim response))))
     \<or> (\<exists>n. err = InvalidFormat n)
     \<or> (\<exists>n c. err = InvalidCategory n c \<and> c \<notin> set VALID_CATEGORIES)"
proof -
  assume a: "parseAIResponse response B = Inl err"
  show ?thesis
  proof (cases "parse_loop (split_lines (trim response)) B 0 []")
    case (Inl e')
    with a have "e' = err" by (simp add: parseAIResponse_def)
    with parse_loop_error_kind [OF Inl] show ?thesis by simp
  next
    case (Inr cats)
    from parse_loop_Inr [OF Inr] have "length cats = B" by simp
    with a Inr show ?thesis by (simp add: parseAIResponse_def)
  qed
qed


lemma parseAIResponse_short:
  "length (split_lines (trim response)) < B \<Longrightarrow> \<exists>err. parseAIResponse response B = Inl err"
  using parse_loop_short [of 0 B "split_lines (trim response)" "[]"]
  by (auto simp: parseAIResponse_def)

lemma batch_step_failure:
  "processBatch e batch = Inl err \<Longrightarrow> batch_step e batch (p, t, w) = (p, t + length batch, w)"
  by (simp add: batch_step_def)

lemma letters_not_space:
  "\<forall>ch \<in> set upper_chars. \<not> is_space ch" "\<forall>ch \<in> set lower_chars. \<not> is_space ch"
  by (simp_all add: upper_chars_def lower_chars_def is_space_def)

lemma is_space_lower_char: "is_space (lower_char ch) = is_space ch"
proof (cases "map_of (zip upper_chars lower_chars) ch")
  case None
  then show ?thesis by (simp add: lower_char_def)
next
  case (Some l)
  then have "(ch, l) \<in> set (zip upper_chars lower_chars)" by (rule map_of_SomeD)
  then have "ch \<in> set upper_chars" "l \<in> set lower_chars"
    by (auto dest: set_zip_leftD set_zip_rightD)
  with letters_not_space Some show ?thesis by (simp add: lower_char_def)
qed

lemma dropWhile_space_lower:
  "dropWhile is_space (toLowerCase s) = toLowerCase (dropWhile is_space s)"
  by (induction s) (simp_all add: toLowerCase_def is_space_lower_char)

lemma trim_toLowerCase: "trim (toLowerCase s) = toLowerCase (trim s)"
proof -
  have r: "rev (toLowerCase s) = toLowerCase (rev s)" for s
    by (simp add: toLowerCase_def rev_map)
  show ?thesis
    by (simp add: trim_def dropWhile_space_lower r)
qed

lemma dropWhile_drop_prefix:
  "k \<le> length (takeWhile P xs) \<Longrightarrow> dropWhile P (drop k xs) = dropWhile P xs"
proof (induction xs arbitrary: k)
  case Nil
  then show ?case by simp
next
  case (Cons x xs)
  then show ?case by (cases k) (auto split: if_splits)
qed

lemma trim_drop_spaces:
  "k \<le> length (takeWhile is_space xs) \<Longrightarrow> trim (drop k xs) = trim xs"
  by (simp add: trim_def dropWhile_drop_prefix)

lemma trim_dropWhile: "trim (dropWhile is_space xs) = trim xs"
  by (simp add: trim_def)

lemma find_Some_mem: "find P xs = Some x \<Longrightarrow> x \<in> set xs"
  by (induction xs) (auto split: if_splits)

lemma find_candidates:
  "find P (map f (rev [0 ..< Suc n])) = Some g \<Longrightarrow> \<exists>k\<le>n. g = f k"
proof (induction n)
  case 0
  then show ?case by (simp split: if_splits)
next
  case (Suc n)
  show ?case
  proof (cases "P (f (Suc n))")
    case True
    with Suc.prems have "g = f (Suc n)" by simp
    then show ?thesis by blast
  next
    case False
    with Suc.prems have "find P (map f (rev [0 ..< Suc n])) = Some g" by simp
    from Suc.IH [OF this] obtain k where "k \<le> n" "g = f k" by blast
    then have "k \<le> Suc n \<and> g = f k" by simp
    then show ?thesis by blast
  qed
qed

lemma find_candidates_None:
  "find P (map f (rev [0 ..< Suc n])) = None \<Longrightarrow> \<not> P (f 0)"
proof (induction n)
  case 0
  then show ?case by (simp split: if_splits)
next
  case (Suc n)
  from Suc.prems have "find P (map f (rev [0 ..< Suc n])) = None"
    by (simp split: if_splits)
  then show ?case by (rule Suc.IH)
qed

lemma match_numbered_Some:
  assumes "match_numbered line = Some g"
  shows "\<exists>tail k. takeWhile is_digit line \<noteq> [] \<and> dropWhile is_digit line = CHR ''.'' # tail
           \<and> k \<le> length (takeWhile is_space tail) \<and> g = drop k tail"
proof -
  from assms have d: "takeWhile is_digit line \<noteq> []"
    by (auto simp: match_numbered_def split: if_splits)
  from assms d obtain c tail where r: "dropWhile is_digit line = c # tail"
    by (cases "dropWhile is_digit line") (auto simp: match_numbered_def)
  from assms d r have c: "c = CHR ''.''"
    by (auto simp: match_numbered_def split: if_splits)
  from assms d r c
  have f: "find dot_plus (map (\<lambda>k. drop k tail)
             (rev [0 ..< Suc (length (takeWhile is_space tail))])) = Some g"
    by (simp add: match_numbered_def)
  from find_candidates [OF f]
  obtain k where "k \<le> length (takeWhile is_space tail)" "g = drop k tail"
    by blast
  with d r c show ?thesis by blast
qed

lemma match_numbered_None:
  assumes "match_numbered line = None" and "takeWhile is_digit line \<noteq> []"
    and "dropWhile is_digit line = CHR ''.'' # tail" and "dot_plus line"
  shows "tail = []"
proof -
  from assms(1-3)
  have "find dot_plus (map (\<lambda>k. drop k tail)
             (rev [0 ..< Suc (length (takeWhile is_space tail))])) = None"
    by (simp add: match_numbered_def)
  then have "\<not> dot_plus (drop 0 tail)"
    by (rule find_candidates_None)
  moreover have "set tail \<subseteq> set line"
    using assms(3) set_dropWhileD [of _ is_digit line] by auto
  with assms(4) have "\<not> list_ex is_line_terminator tail"
    by (auto simp: dot_plus_def list_ex_iff)
  ultimately show ?thesis by (simp add: dot_plus_def)
qed

lemma valid_last: "c \<in> set VALID_CATEGORIES \<Longrightarrow> last c \<noteq> CHR ''.''"
  by (auto simp: VALID_CATEGORIES_def)

lemma lower_char_stop: "lower_char (CHR ''.'') = CHR ''.''"
  by (simp add: lower_char_def upper_chars_def lower_chars_def)

lemma digit_not_space: "is_digit ch \<Longrightarrow> \<not> is_space ch"
  by (auto simp: is_digit_def is_space_def)

lemma ordinal_only_invalid:
  assumes "ds \<noteq> []" and "\<forall>ch \<in> set ds. is_digit ch"
  shows "toLowerCase (trim (ds @ ''.'')) \<notin> set VALID_CATEGORIES"
proof -
  from assms obtain d ds' where ds: "ds = d # ds'" and d: "is_digit d"
    by (cases ds) auto
  have "dropWhile is_space (ds @ ''.'') = ds @ ''.''"
    using ds d by (simp add: digit_not_space)
  moreover have "dropWhile is_space (rev (ds @ ''.'')) = rev (ds @ ''.'')"
    by (simp add: is_space_def)
  ultimately have "trim (ds @ ''.'') = ds @ ''.''"
    by (simp add: trim_def)
  then have "last (toLowerCase (trim (ds @ ''.''))) = CHR ''.''"
    by (simp add: toLowerCase_def lower_char_stop)
  with valid_last show ?thesis by blast
qed

lemma line_category_spec_normalize:
  assumes "line_category line = Some c" and "c \<in> set VALID_CATEGORIES"
  shows "spec_normalize line = c"
proof -
  from assms(1) obtain g where g: "line_match line = Some g" and c: "c = toLowerCase (trim g)"
    by (auto simp: line_category_def)
  show ?thesis
  proof (cases "match_numbered line")
    case (Some g0)
    with g have "g0 = g" by (simp add: line_match_def)
    with match_numbered_Some [OF Some] obtain tail k where
      t: "takeWhile is_digit line \<noteq> []" "dropWhile is_digit line = CHR ''.'' # tail"
         "k \<le> length (takeWhile is_space tail)" "g = drop k tail"
      by blast
    from t(1,2) have "strip_ordinal line = dropWhile is_space tail"
      by (simp add: strip_ordinal_def)
    then have "spec_normalize line = toLowerCase (trim tail)"
      by (simp add: spec_normalize_def trim_toLowerCase trim_dropWhile)
    also from t(3,4) have "trim tail = trim g" by (simp add: trim_drop_spaces)
    finally show ?thesis using c by simp
  next
    case None
    with g have gl: "g = line" and dp: "dot_plus line"
      by (auto simp: line_match_def match_plain_def split: if_splits)
    show ?thesis
    proof (cases "takeWhile is_digit line \<noteq> [] \<and> prefix ''.'' (dropWhile is_digit line)")
      case False
      then have "strip_ordinal line = line" by (auto simp: strip_ordinal_def)
      with c gl show ?thesis by (simp add: spec_normalize_def trim_toLowerCase)
    next
      case True
      then obtain tail where tl: "dropWhile is_digit line = CHR ''.'' # tail"
        by (cases "dropWhile is_digit line") auto
      from match_numbered_None [OF None _ tl dp] True have "tail = []" by simp
      with tl have "line = takeWhile is_digit line @ ''.''"
        using takeWhile_dropWhile_id [of is_digit line] by simp
      moreover have "\<forall>ch \<in> set (takeWhile is_digit line). is_digit ch"
        by (auto dest: set_takeWhileD)
      ultimately have "toLowerCase (trim line) \<notin> set VALID_CATEGORIES"
        using ordinal_only_invalid [of "takeWhile is_digit line"] True by simp
      with c gl assms(2) show ?thesis by simp
    qed
  qed
qed

text \<open>
  Claim C3, as amended. For every batch and every response of the model, either the parse gives
  exactly one category for each listing of the batch, and then each of the first lines of
  the response, as many as the batch is long, is present and, stripped of an optional
  leading ordinal, in lower case and trimmed, is that category and a member of the
  vocabulary (it is also the capture of the parser, trimmed and in lower case); or the
  parse fails with an
  error (a missing line, a line that matches neither expression, or a category outside
  the vocabulary), the batch fails with it, and the turn of the sweep only adds the size
  of the batch to the error count and leaves the world as it is. A response with fewer
  lines than the batch has listings always fails.
\<close>

theorem classifier_batch_all_or_nothing:
  assumes "generateContent e batch = Some response"
  shows "((\<exists>categories. parseAIResponse response (length batch) = Inr categories
            \<and> length categories = length batch
            \<and> (\<forall>i<length batch. i < length (split_lines (trim response))
                  \<and> line_category (split_lines (trim response) ! i) = Some (categories ! i)
                  \<and> spec_normalize (split_lines (trim response) ! i) = categories ! i
                  \<and> categories ! i \<in> set VALID_CATEGORIES))
          \<or> (\<exists>err. parseAIResponse response (length batch) = Inl err
                \<and> ((\<exists>n. err = MissingResponse n (length batch)
                                (length (split_lines (trim response))))
                    \<or> (\<exists>n. err = InvalidFormat n)
                    \<or> (\<exists>n c. err = InvalidCategory n c \<and> c \<notin> set VALID_CATEGORIES))
                \<and> processBatch e batch = Inl err
                \<and> batch_step e batch (p, t, w) = (p, t + length batch, w)))
         \<and> (length (split_lines (trim response)) < length batch
              \<longrightarrow> (\<exists>err. parseAIResponse response (length batch) = Inl err))"
proof -
  have first: "(\<exists>categories. parseAIResponse response (length batch) = Inr categories
            \<and> length categories = length batch
            \<and> (\<forall>i<length batch. i < length (split_lines (trim response))
                  \<and> line_category (split_lines (trim response) ! i) = Some (categories ! i)
                  \<and> spec_normalize (split_lines (trim response) ! i) = categories ! i
                  \<and> categories ! i \<in> set VALID_CATEGORIES))
          \<or> (\<exists>err. parseAIResponse response (length batch) = Inl err
                \<and> ((\<exists>n. err = MissingResponse n (length batch)
                                (length (split_lines (trim response))))
                    \<or> (\<exists>n. err = InvalidFormat n)
                    \<or> (\<exists>n c. err = InvalidCategory n c \<and> c \<notin> set VALID_CATEGORIES))
                \<and> processBatch e batch = Inl err
                \<and> batch_step e batch (p, t, w) = (p, t + length batch, w))"
  proof (cases "parseAIResponse response (length batch)")
    case (Inr categories)
    from parseAIResponse_Inr [OF Inr]
    have "length categories = length batch"
      and "\<forall>i<length batch. i < length (split_lines (trim response))
             \<and> line_category (split_lines (trim response) ! i) = Some (categories ! i)
             \<and> categories ! i \<in> set VALID_CATEGORIES"
      by simp_all
    then have "length categories = length batch
      \<and> (\<forall>i<length batch. i < length (split_lines (trim response))
             \<and> line_category (split_lines (trim response) ! i) = Some (categories ! i)
             \<and> spec_normalize (split_lines (trim response) ! i) = categories ! i
             \<and> categories ! i \<in> set VALID_CATEGORIES)"
      by (simp add: line_category_spec_normalize)
    with Inr show ?thesis by blast
  next
    case (Inl err)
    from assms Inl have pb: "processBatch e batch = Inl err"
      by (simp add: processBatch_def)
    from parseAIResponse_Inl [OF Inl] Inl pb batch_step_failure [OF pb, of p t w]
    show ?thesis by blast
  qed
  with parseAIResponse_short [of response "length batch"] show ?thesis by blast
qed

theorem classifier_batch_all_or_nothing_witness:
  "generateContent env0 [row_uncategorized, row_other]
     = Some (''1. bed'' @ [CHR 0x0A] @ ''Studio Apartment'')
   \<and> parseAIResponse (''1. bed'' @ [CHR 0x0A] @ ''Studio Apartment'')
       (length [row_uncategorized, row_other]) = Inr [''bed'', ''studio apartment'']
   \<and> generateContent (env0\<lparr> generateContent := \<lambda>batch. Some ''penthouse'' \<rparr>)
       [row_uncategorized] = Some ''penthouse''
   \<and> batch_step (env0\<lparr> generateContent := \<lambda>batch. Some ''penthouse'' \<rparr>) [row_uncategorized]
       (0, 0, world_of [row_uncategorized]) = (0, 1, world_of [row_uncategorized])"
proof -
  have g: "generateContent env0 [row_uncategorized, row_other]
     = Some (''1. bed'' @ [CHR 0x0A] @ ''Studio Apartment'')"
    by (simp add: env0_simps)
  have g': "generateContent (env0\<lparr> generateContent := \<lambda>batch. Some ''penthouse'' \<rparr>)
       [row_uncategorized] = Some ''penthouse''"
    by simp
  have bad: "parseAIResponse ''penthouse'' (Suc 0) = Inl (InvalidCategory 1 ''penthouse'')"
    by (simp add: line_eval parse_loop.simps)
  from classifier_batch_all_or_nothing [OF g', of 0 0 "world_of [row_uncategorized]"] bad
  have "batch_step (env0\<lparr> generateContent := \<lambda>batch. Some ''penthouse'' \<rparr>) [row_uncategorized]
       (0, 0, world_of [row_uncategorized]) = (0, 1, world_of [row_uncategorized])"
    by simp
  with classifier_batch_all_or_nothing [OF g, of 0 0 "world_of []"] g g' parse_two_lines
  show ?thesis by simp
qed

lemma norm_eval: "spec_normalize ''bed'' = ''bed''"
  "spec_normalize (''bed'' @ [CHR 0x0D]) = ''bed''"
  by (simp_all add: spec_normalize_def strip_ordinal_def is_digit_def trim_def is_space_def
      toLowerCase_def lower_char_def upper_chars_def lower_chars_def)


lemma cr_line_lines:
  "split_lines (trim response_cr_line) = [''bed'' @ [CHR 0x0D], ''bed'']"
  by (simp add: response_cr_line_def trim_def is_space_def)


lemma cr_line_fails:
  "parseAIResponse response_cr_line 2 = Inl (InvalidFormat 1)"
proof -
  have l1: "line_match (''bed'' @ [CHR 0x0D]) = None" by (simp add: line_eval)
  have two: "(2::nat) = Suc (Suc 0)" by simp
  show ?thesis
    unfolding parseAIResponse_def cr_line_lines
    by (simp add: two parse_loop.simps l1 [simplified])
qed

text \<open>
  Claim C3 as stated fails in its second half: a batch can fail with an error that is
  neither a category outside the vocabulary nor a lack of lines. The response
  \<^verbatim>\<open>bed\<close>, carriage return, line feed, \<^verbatim>\<open>bed\<close> has two lines for a batch of two, and each
  line, normalized, is the member \<^verbatim>\<open>bed\<close> of the vocabulary; but the first line holds a
  carriage return, which neither expression matches, and the parse fails with a format
  error.
\<close>

theorem format_error_with_enough_valid_lines:
  "split_lines (trim response_cr_line) = [''bed'' @ [CHR 0x0D], ''bed'']
   \<and> length (split_lines (trim response_cr_line)) = 2
   \<and> spec_normalize (''bed'' @ [CHR 0x0D]) = ''bed''
   \<and> spec_normalize ''bed'' = ''bed''
   \<and> ''bed'' \<in> set VALID_CATEGORIES
   \<and> parseAIResponse response_cr_line 2 = Inl (InvalidFormat 1)"
  using cr_line_lines norm_eval cr_line_fails
  by (simp add: VALID_CATEGORIES_def)








section \<open>The category under the import and under the sweep\<close>

lemma only_category_refl: "only_category K r r"
  by (simp add: only_category_def)

lemma only_category_trans:
  assumes ab: "only_category K a b" and bc: "only_category K b c"
  shows "only_category K a c"
proof (cases "b = a")
  case True
  with bc show ?thesis by simp
next
  case False
  with ab obtain c1 where k: "row_id a \<in> K" and b: "b = a\<lparr> ai_category_v1 := Some c1 \<rparr>"
    unfolding only_category_def by blast
  show ?thesis
  proof (cases "c = b")
    case True
    with ab show ?thesis by simp
  next
    case False
    with bc obtain c2 where "c = b\<lparr> ai_category_v1 := Some c2 \<rparr>"
      unfolding only_category_def by blast
    with b have "c = a\<lparr> ai_category_v1 := Some c2 \<rparr>" by simp
    with k show ?thesis unfolding only_category_def by blast
  qed
qed

lemma rows_rel_refl: "rows_rel K rs rs"
  by (simp add: rows_rel_def list_all2_refl only_category_refl)

lemma rows_rel_trans:
  assumes "rows_rel K a b" and "rows_rel K b c"
  shows "rows_rel K a c"
  using assms unfolding rows_rel_def
  by (rule list_all2_trans [rotated]) (rule only_category_trans)

lemma only_category_update:
  "lid \<in> K \<Longrightarrow>
   only_category K r (if row_id r = lid then r\<lparr> ai_category_v1 := Some c \<rparr> else r)"
proof (cases "row_id r = lid")
  case True
  assume "lid \<in> K"
  with True have "row_id r \<in> K" by simp
  moreover from True
  have "(if row_id r = lid then r\<lparr> ai_category_v1 := Some c \<rparr> else r)
          = r\<lparr> ai_category_v1 := Some c \<rparr>"
    by simp
  ultimately show ?thesis unfolding only_category_def by blast
next
  case False
  then have "(if row_id r = lid then r\<lparr> ai_category_v1 := Some c \<rparr> else r) = r"
    by simp
  then show ?thesis unfolding only_category_def by blast
qed

lemma rows_rel_update:
  "lid \<in> K \<Longrightarrow>
   rows_rel K rs (map (\<lambda>r. if row_id r = lid then r\<lparr> ai_category_v1 := Some c \<rparr> else r) rs)"
  unfolding rows_rel_def list_all2_map2
  by (rule list_all2_refl) (rule only_category_update)

lemma apply_categories_rel:
  "apply_categories e entries (tp, w) = (ok, tp', w') \<Longrightarrow> fst ` set entries \<subseteq> K \<Longrightarrow>
   rows_rel K (rows w) (rows w') \<and> priceHistory w' = priceHistory w"
proof (induction entries arbitrary: tp w)
  case Nil
  then show ?case by (simp add: rows_rel_refl)
next
  case (Cons a entries)
  obtain lid c where a: "a = (lid, c)" by (cases a)
  show ?case
  proof (cases "db_fails e (trace w) (UpdateCategory lid c) \<or> findUnique lid (rows w) = None")
    case True
    with Cons.prems a show ?thesis by (auto simp: Let_def rows_rel_refl)
  next
    case False
    let ?w = "w\<lparr> trace := trace w @ [UpdateCategory lid c],
                rows := map (\<lambda>r. if row_id r = lid then r\<lparr> ai_category_v1 := Some c \<rparr> else r)
                          (rows w) \<rparr>"
    from Cons.prems a False have "apply_categories e entries (tp + 1, ?w) = (ok, tp', w')"
      by (simp add: Let_def)
    from Cons.IH [OF this] Cons.prems(2)
    have "rows_rel K (rows ?w) (rows w')" "priceHistory w' = priceHistory ?w" by auto
    moreover from Cons.prems(2) a have "rows_rel K (rows w) (rows ?w)"
      by (simp add: rows_rel_update)
    ultimately show ?thesis by (auto intro: rows_rel_trans)
  qed
qed

lemma categoryMap_keys:
  "fst ` set (foldl (\<lambda>categoryMap lc. AList.update (row_id (fst lc)) (snd lc) categoryMap) m xs)
     \<subseteq> fst ` set m \<union> (\<lambda>lc. row_id (fst lc)) ` set xs"
proof (induction xs arbitrary: m)
  case Nil
  show ?case by simp
next
  case (Cons x xs)
  from Cons.IH [of "AList.update (row_id (fst x)) (snd x) m"]
  show ?case by (simp add: dom_update)
qed

lemma processBatch_keys:
  "processBatch e batch = Inr categoryMap \<Longrightarrow> fst ` set categoryMap \<subseteq> row_id ` set batch"
proof -
  assume a: "processBatch e batch = Inr categoryMap"
  then obtain response cats where
    m: "categoryMap =
          foldl (\<lambda>categoryMap lc. AList.update (row_id (fst lc)) (snd lc) categoryMap)
            [] (zip batch cats)"
    by (auto simp: processBatch_def split: option.splits sum.splits)
  have "(\<lambda>lc. row_id (fst lc)) ` set (zip batch cats) \<subseteq> row_id ` set batch"
    by (auto dest: set_zip_leftD)
  with categoryMap_keys [of "[]" "zip batch cats"] m show ?thesis by auto
qed

lemma batch_step_rel:
  "batch_step e batch (p, t, w) = (p', t', w') \<Longrightarrow> row_id ` set batch \<subseteq> K \<Longrightarrow>
   rows_rel K (rows w) (rows w') \<and> priceHistory w' = priceHistory w"
proof (cases "processBatch e batch")
  case (Inl err)
  assume "batch_step e batch (p, t, w) = (p', t', w')"
  with Inl show ?thesis by (simp add: batch_step_def rows_rel_refl)
next
  case (Inr categoryMap)
  assume a: "batch_step e batch (p, t, w) = (p', t', w')" and k: "row_id ` set batch \<subseteq> K"
  obtain ok tp w1 where ac: "apply_categories e categoryMap (p, w) = (ok, tp, w1)"
    by (cases "apply_categories e categoryMap (p, w)")
  with a Inr have "w' = w1" by (simp add: batch_step_def)
  moreover from processBatch_keys [OF Inr] k have "fst ` set categoryMap \<subseteq> K" by blast
  ultimately show ?thesis using apply_categories_rel [OF ac] by simp
qed

lemma categorize_loop_rel:
  "categorize_loop e listings i st = st' \<Longrightarrow> row_id ` set listings \<subseteq> K \<Longrightarrow>
   rows_rel K (rows (snd (snd st))) (rows (snd (snd st')))
   \<and> priceHistory (snd (snd st')) = priceHistory (snd (snd st))"
proof (induction e listings i st rule: categorize_loop.induct)
  case (1 e listings i st)
  show ?case
  proof (cases "i < length listings")
    case False
    with "1.prems" show ?thesis by (simp add: categorize_loop.simps rows_rel_refl)
  next
    case True
    let ?batch = "take batchSize_const (drop i listings)"
    let ?st = "batch_step e ?batch st"
    from "1.prems" True have rec: "categorize_loop e listings (i + batchSize_const) ?st = st'"
      by (simp add: categorize_loop.simps [of e listings i st])
    obtain p t w where st: "st = (p, t, w)" by (cases st)
    obtain p1 t1 w1 where st1: "?st = (p1, t1, w1)" by (cases ?st)
    have "row_id ` set ?batch \<subseteq> K"
      using "1.prems"(2) set_take_subset [of batchSize_const "drop i listings"]
        set_drop_subset [of i listings] by blast
    from batch_step_rel [OF st1 [unfolded st] this]
    have one: "rows_rel K (rows w) (rows w1)" "priceHistory w1 = priceHistory w" by auto
    from "1.IH" [OF True rec "1.prems"(2)] st1
    have "rows_rel K (rows w1) (rows (snd (snd st')))"
      "priceHistory (snd (snd st')) = priceHistory w1" by auto
    with one st show ?thesis by (auto intro: rows_rel_trans)
  qed
qed

lemma categorizeAllListings_rel:
  assumes "categorizeAllListings e w = Inr (p, t, w')"
  shows "rows_rel (row_id ` {r \<in> set (rows w). needs_category r}) (rows w) (rows w')
         \<and> priceHistory w' = priceHistory w"
proof -
  let ?w1 = "w\<lparr> trace := trace w @ [FindManyUncategorized] \<rparr>"
  let ?ls = "filter needs_category (rows w)"
  show ?thesis
  proof (cases "length ?ls = 0")
    case True
    with assms have "w' = ?w1"
      by (auto simp: categorizeAllListings_def Let_def split: if_splits option.splits)
    then show ?thesis by (simp add: rows_rel_refl)
  next
    case False
    with assms have "categorize_loop e ?ls 0 (0, 0, ?w1) = (p, t, w')"
      by (auto simp: categorizeAllListings_def Let_def split: if_splits option.splits)
    from categorize_loop_rel [OF this, of "row_id ` {r \<in> set (rows w). needs_category r}"]
    show ?thesis by auto
  qed
qed

lemma rows_rel_unchanged:
  assumes "rows_rel (row_id ` {r \<in> set rs. needs_category r}) rs rs'"
    and "distinct (map row_id rs)"
  shows "length rs' = length rs
         \<and> (\<forall>i<length rs. (\<not> needs_category (rs ! i) \<longrightarrow> rs' ! i = rs ! i)
              \<and> (rs' ! i = rs ! i \<or> (\<exists>c. rs' ! i = (rs ! i)\<lparr> ai_category_v1 := Some c \<rparr>)))"
proof -
  from assms(1) have len: "length rs' = length rs"
    by (simp add: rows_rel_def list_all2_lengthD)
  have "(\<not> needs_category (rs ! i) \<longrightarrow> rs' ! i = rs ! i)
        \<and> (rs' ! i = rs ! i \<or> (\<exists>c. rs' ! i = (rs ! i)\<lparr> ai_category_v1 := Some c \<rparr>))"
    if i: "i < length rs" for i
  proof -
    from assms(1) i have oc: "only_category (row_id ` {r \<in> set rs. needs_category r}) (rs ! i) (rs' ! i)"
      by (simp add: rows_rel_def list_all2_nthD)
    have "rs' ! i = rs ! i" if nn: "\<not> needs_category (rs ! i)"
    proof (rule ccontr)
      assume "rs' ! i \<noteq> rs ! i"
      with oc obtain r where r: "r \<in> set rs" "needs_category r" "row_id r = row_id (rs ! i)"
        by (auto simp: only_category_def)
      from assms(2) have "inj_on row_id (set rs)" by (simp add: distinct_map)
      with r i have "r = rs ! i" by (auto dest: inj_onD)
      with r nn show False by simp
    qed
    with oc show ?thesis by (auto simp: only_category_def)
  qed
  with len show ?thesis by blast
qed

text \<open>The import keeps the identifiers of the rows distinct: it creates a row only when
  no row has the identifier.\<close>

lemma findUnique_None: "findUnique lid rs = None \<longleftrightarrow> lid \<notin> row_id ` set rs"
  by (induction rs) (auto simp: findUnique_def)

lemma process_item_ids:
  "map row_id (rows (snd (process_item e sw item))) = map row_id (rows (snd sw))
   \<or> (\<exists>lid. lid \<notin> row_id ` set (rows (snd sw))
        \<and> map row_id (rows (snd (process_item e sw item))) = map row_id (rows (snd sw)) @ [lid])"
proof -
  have upd: "map row_id (map (\<lambda>r. if row_id r = lid then apply_update (build_dbData e lid item) r
                                   else r) rs) = map row_id rs" for lid rs
    by (induction rs) (simp_all add: apply_update_category)
  have new: "row_id (create_row (build_dbData e lid item)) = lid" for lid
    by (simp add: create_row_def build_dbData_def)
  show ?thesis
    by (simp add: process_item_def Let_def upd new findUnique_None apply_update_category
        split: option.splits)
qed

lemma process_item_distinct:
  "distinct (map row_id (rows (snd sw)))
   \<Longrightarrow> distinct (map row_id (rows (snd (process_item e sw item))))"
  using process_item_ids [of e sw item] by auto

text \<open>
  Claim C2, as amended. Every update of an existing listing by the import (the turn throws
  no type error, the row exists and neither call to the gateway fails) writes the category
  that the keyword categorizer gives for the description and the bedroom count of the
  candidate, whatever category is persisted. The re-classification sweep changes no
  row whose category is neither absent nor empty: with distinct identifiers, after a run
  of the sweep the table has the same rows in the same places, a row that had a non-empty
  category is the same row, and any other row differs at most in its category.
\<close>

theorem import_writes_category_sweep_keeps_it:
  "(type_error item = None \<and> truthy (item_id item)
      \<and> findUnique (or_else (item_id item) []) (rows w) = Some existing
      \<and> \<not> db_fails e (trace w) (FindUnique (or_else (item_id item) []))
      \<and> \<not> db_fails e (trace w @ [FindUnique (or_else (item_id item) [])])
           (Update (or_else (item_id item) [])
              (build_dbData e (or_else (item_id item) []) item))
    \<longrightarrow> list_all (\<lambda>r. row_id r = or_else (item_id item) []
              \<longrightarrow> ai_category_v1 r
                  = Some (determineListingCategory (present (description_of item))
                            (bedrooms_of item)))
          (rows (snd (process_item e (st, w) item))))
   \<and> (categorizeAllListings e v = Inr (p, t, v') \<and> distinct (map row_id (rows v))
    \<longrightarrow> length (rows v') = length (rows v)
        \<and> (\<forall>i<length (rows v).
              (\<not> needs_category (rows v ! i) \<longrightarrow> rows v' ! i = rows v ! i)
              \<and> (rows v' ! i = rows v ! i
                  \<or> (\<exists>c. rows v' ! i = (rows v ! i)\<lparr> ai_category_v1 := Some c \<rparr>))))"
proof (rule conjI; rule impI)
  assume a: "type_error item = None \<and> truthy (item_id item)
      \<and> findUnique (or_else (item_id item) []) (rows w) = Some existing
      \<and> \<not> db_fails e (trace w) (FindUnique (or_else (item_id item) []))
      \<and> \<not> db_fails e (trace w @ [FindUnique (or_else (item_id item) [])])
           (Update (or_else (item_id item) [])
              (build_dbData e (or_else (item_id item) []) item))"
  have "list_all (\<lambda>r. row_id r = lid \<longrightarrow> ai_category_v1 r = Some c)
          (map (\<lambda>r. if row_id r = lid then apply_update (build_dbData e lid item) r else r) rs)"
    if "c = determineListingCategory (present (description_of item)) (bedrooms_of item)"
    for lid c rs
    using that by (induction rs) (simp_all add: apply_update_category)
  with a show "list_all (\<lambda>r. row_id r = or_else (item_id item) []
              \<longrightarrow> ai_category_v1 r
                  = Some (determineListingCategory (present (description_of item))
                            (bedrooms_of item)))
          (rows (snd (process_item e (st, w) item)))"
    by (simp add: process_item_update [of item w existing e st])
next
  assume "categorizeAllListings e v = Inr (p, t, v') \<and> distinct (map row_id (rows v))"
  then have c: "categorizeAllListings e v = Inr (p, t, v')" and d: "distinct (map row_id (rows v))"
    by simp_all
  from categorizeAllListings_rel [OF c]
  have "rows_rel (row_id ` {r \<in> set (rows v). needs_category r}) (rows v) (rows v')" by simp
  from rows_rel_unchanged [OF this d]
  show "length (rows v') = length (rows v)
        \<and> (\<forall>i<length (rows v).
              (\<not> needs_category (rows v ! i) \<longrightarrow> rows v' ! i = rows v ! i)
              \<and> (rows v' ! i = rows v ! i
                  \<or> (\<exists>c. rows v' ! i = (rows v ! i)\<lparr> ai_category_v1 := Some c \<rparr>)))" .
qed

lemma overwrite_rows:
  "rows (snd (process_item env0 (zero_stats, world_of [row_other]) item_L1))
   = [row_other\<lparr> ai_category_v1 := Some ''unknown'' \<rparr>]"
  by (simp add: process_item_def Let_def env0_def world_of_def row_other_def blank_row_def
      findUnique_def item_L1_def extract_defs price_of_missing reparse_0 apply_update_def
      opt_write_def zero_stats_def determineListingCategory_def truthy_def or_else_def
      truthy_count_def empty_item_def)

theorem import_writes_category_sweep_keeps_it_witness:
  "type_error item_L1 = None \<and> truthy (item_id item_L1)
   \<and> findUnique (or_else (item_id item_L1) []) (rows (world_of [row_other])) = Some row_other
   \<and> list_all (\<lambda>r. ai_category_v1 r = Some ''unknown'')
       (rows (snd (process_item env0 (zero_stats, world_of [row_other]) item_L1)))
   \<and> categorizeAllListings env0 (world_of [row_other, row_uncategorized])
       = Inr (1, 0, \<lparr> rows = [row_other, row_uncategorized\<lparr> ai_category_v1 := Some ''bed'' \<rparr>],
                      priceHistory = [],
                      trace = [FindManyUncategorized, UpdateCategory ''L2'' ''bed''],
                      console = [] \<rparr>)
   \<and> distinct (map row_id (rows (world_of [row_other, row_uncategorized])))
   \<and> \<not> needs_category row_other"
proof -
  have id: "or_else (item_id item_L1) [] = ''L1''" "truthy (item_id item_L1)"
    "type_error item_L1 = None"
    by (simp_all add: item_L1_def empty_item_def or_else_def truthy_def)
  have found: "findUnique (or_else (item_id item_L1) []) (rows (world_of [row_other]))
       = Some row_other"
    by (simp add: id findUnique_def world_of_def row_other_def blank_row_def)
  have ok: "\<not> db_fails env0 tr op" for tr op
    by (simp add: env0_def)
  have d: "distinct (map row_id (rows (world_of [row_other, row_uncategorized])))"
    by (simp add: world_of_def row_other_def row_uncategorized_def blank_row_def)
  have n: "\<not> needs_category row_other"
    by (simp add: needs_category_def row_other_def blank_row_def)
  have cat: "determineListingCategory (present (description_of item_L1)) (bedrooms_of item_L1)
             = ''unknown''"
    by (simp add: item_L1_def empty_item_def extract_defs determineListingCategory_def
        truthy_def or_else_def truthy_count_def)
  note inst = import_writes_category_sweep_keeps_it
    [of item_L1 "world_of [row_other]" row_other env0 zero_stats
        "world_of [row_other, row_uncategorized]" 1 0
        "\<lparr> rows = [row_other, row_uncategorized\<lparr> ai_category_v1 := Some ''bed'' \<rparr>],
           priceHistory = [],
           trace = [FindManyUncategorized, UpdateCategory ''L2'' ''bed''],
           console = [] \<rparr>"]
  from inst id found ok cat
  have "list_all (\<lambda>r. row_id r = ''L1'' \<longrightarrow> ai_category_v1 r = Some ''unknown'')
       (rows (snd (process_item env0 (zero_stats, world_of [row_other]) item_L1)))"
    by simp
  then have "list_all (\<lambda>r. ai_category_v1 r = Some ''unknown'')
       (rows (snd (process_item env0 (zero_stats, world_of [row_other]) item_L1)))"
    by (simp add: overwrite_rows)
  with id found d n cat_eval show ?thesis by simp
qed

text \<open>Claim C2 as stated fails: a listing stored with the category \<^verbatim>\<open>other\<close> and imported
  again has the category \<^verbatim>\<open>unknown\<close> of the keyword categorizer afterwards.\<close>

theorem import_overwrites_category:
  "ai_category_v1 row_other = Some ''other''
   \<and> map ai_category_v1
       (rows (snd (process_item env0 (zero_stats, world_of [row_other]) item_L1)))
     = [Some ''unknown'']"
  by (simp add: overwrite_rows) (simp add: row_other_def blank_row_def)

end
